theory Spec2Isabelle
  imports Complex_Main "HOL-Library.Word"
begin

unbundle bit_operations_syntax

section \<open>Configuration constants (config.h)\<close>

type_synonym uint8_t = "8 word"

definition MAX_BLOCK_TYPES :: nat where "MAX_BLOCK_TYPES = 16"

definition BLOCK_AIR :: uint8_t where "BLOCK_AIR = 0"
definition BLOCK_DIRT :: uint8_t where "BLOCK_DIRT = 1"
definition BLOCK_GRASS :: uint8_t where "BLOCK_GRASS = 2"
definition BLOCK_STONE :: uint8_t where "BLOCK_STONE = 3"
definition BLOCK_WOOD :: uint8_t where "BLOCK_WOOD = 4"
definition BLOCK_LEAVES :: uint8_t where "BLOCK_LEAVES = 5"
definition BLOCK_WATER :: uint8_t where "BLOCK_WATER = 6"
definition BLOCK_SAND :: uint8_t where "BLOCK_SAND = 7"
definition BLOCK_BRICK :: uint8_t where "BLOCK_BRICK = 8"

definition COLOR_BLACK :: int where "COLOR_BLACK = 0"
definition COLOR_RED :: int where "COLOR_RED = 1"
definition COLOR_GREEN :: int where "COLOR_GREEN = 2"
definition COLOR_YELLOW :: int where "COLOR_YELLOW = 3"
definition COLOR_BLUE :: int where "COLOR_BLUE = 4"
definition COLOR_WHITE :: int where "COLOR_WHITE = 7"
definition COLOR_BRIGHT :: int where "COLOR_BRIGHT = 8"

section \<open>The world (world.h, world.c)\<close>

text \<open>
  C \<open>int\<close> values are modelled as \<open>int\<close>; none of the functions below does
  arithmetic on them that could leave the 32-bit range, and the places where a
  value is converted to 32 bits (the file format) say so. A \<open>uint8_t\<close> is an
  \<open>8 word\<close>. The 3D array \<open>uint8_t*** blocks\<close>, indexed \<open>blocks[z][y][x]\<close>,
  is a list of planes of rows of bytes.

  C \<open>float\<close> values that are computed with are modelled as real numbers
  (exact arithmetic: rounding, infinities and NaN are not represented), except
  in \<open>player_rotate\<close>, where the rounding decides the outcome and is a
  parameter of the model. The two floats of a world are also written to and
  read from files byte by byte, so the world keeps them as their 32-bit
  pattern. Such a pattern may stand for an infinity or a NaN, so \<open>f32_val\<close>
  reads it as a \<open>float\<close>, which has these values beside the real numbers.
\<close>

record BlockType =
  display_char :: char
  fg_color :: int
  bg_color :: int
  solid :: int
  light_absorption :: real
  name :: "string option"

record World =
  width :: int
  height :: int
  depth :: int
  blocks :: "uint8_t list list list"
  block_types :: "BlockType list"
  num_block_types :: int
  time_of_day :: "32 word"
  sky_brightness :: "32 word"

definition mk_block_type ::
  "char \<Rightarrow> int \<Rightarrow> int \<Rightarrow> int \<Rightarrow> real \<Rightarrow> string option \<Rightarrow> BlockType" where
  "mk_block_type c fg bg s la n =
     \<lparr>display_char = c, fg_color = fg, bg_color = bg, solid = s,
      light_absorption = la, name = n\<rparr>"

text \<open>
  The static table has \<open>MAX_BLOCK_TYPES\<close> entries; the nine initialised ones
  are followed by zero-initialised ones.
\<close>

definition default_block_types :: "BlockType list" where
  "default_block_types =
     [mk_block_type CHR '' '' COLOR_BLACK COLOR_BLACK 0 0 (Some ''Air''),
      mk_block_type CHR ''.'' COLOR_YELLOW COLOR_BLACK 1 (6/10) (Some ''Dirt''),
      mk_block_type (CHR 0x22) COLOR_GREEN COLOR_BLACK 1 (5/10) (Some ''Grass''),
      mk_block_type CHR ''#'' COLOR_WHITE COLOR_BLACK 1 (8/10) (Some ''Stone''),
      mk_block_type CHR ''|'' (COLOR_YELLOW OR COLOR_BRIGHT) COLOR_BLACK 1 (7/10) (Some ''Wood''),
      mk_block_type CHR ''*'' (COLOR_GREEN OR COLOR_BRIGHT) COLOR_BLACK 1 (5/10) (Some ''Leaves''),
      mk_block_type CHR ''~'' COLOR_BLUE COLOR_BLACK 0 (3/10) (Some ''Water''),
      mk_block_type CHR '','' (COLOR_YELLOW OR COLOR_BRIGHT) COLOR_BLACK 1 (4/10) (Some ''Sand''),
      mk_block_type CHR ''='' COLOR_RED COLOR_BLACK 1 (9/10) (Some ''Brick'')]
     @ replicate 7 (mk_block_type (CHR 0x00) 0 0 0 0 None)"

text \<open>
  A \<open>World*\<close> argument that the code tests against \<open>NULL\<close> is a
  \<open>World option\<close>.
\<close>

definition world_is_valid_position :: "World option \<Rightarrow> int \<Rightarrow> int \<Rightarrow> int \<Rightarrow> bool" where
  "world_is_valid_position world x y z =
     (case world of
        None \<Rightarrow> False
      | Some w \<Rightarrow> x \<ge> 0 \<and> x < width w \<and> y \<ge> 0 \<and> y < height w \<and> z \<ge> 0 \<and> z < depth w)"

definition block_at :: "World \<Rightarrow> int \<Rightarrow> int \<Rightarrow> int \<Rightarrow> uint8_t" where
  "block_at w x y z = blocks w ! nat z ! nat y ! nat x"

definition world_get_block :: "World option \<Rightarrow> int \<Rightarrow> int \<Rightarrow> int \<Rightarrow> uint8_t" where
  "world_get_block world x y z =
     (case world of
        None \<Rightarrow> BLOCK_AIR
      | Some w \<Rightarrow>
          if \<not> world_is_valid_position world x y z then BLOCK_AIR
          else block_at w x y z)"

definition world_set_block :: "World \<Rightarrow> int \<Rightarrow> int \<Rightarrow> int \<Rightarrow> uint8_t \<Rightarrow> World" where
  "world_set_block w x y z type =
     (if \<not> world_is_valid_position (Some w) x y z then w
      else w\<lparr>blocks := (blocks w)[nat z := (blocks w ! nat z)[nat y :=
              (blocks w ! nat z ! nat y)[nat x := type]]]\<rparr>)"

definition world_is_solid :: "World option \<Rightarrow> int \<Rightarrow> int \<Rightarrow> int \<Rightarrow> int" where
  "world_is_solid world x y z =
     (case world of
        None \<Rightarrow> 0
      | Some w \<Rightarrow>
          if \<not> world_is_valid_position world x y z then 0
          else let type = block_at w x y z in
            if uint type \<ge> num_block_types w then 0
            else solid (block_types w ! unat type))"

section \<open>Vectors (vector.h, vector.c)\<close>

record Vector2 =
  v2_x :: real
  v2_y :: real

record Vector3 =
  v3_x :: real
  v3_y :: real
  v3_z :: real

definition vec2_create :: "real \<Rightarrow> real \<Rightarrow> Vector2" where
  "vec2_create x y = \<lparr>v2_x = x, v2_y = y\<rparr>"

definition vec3_create :: "real \<Rightarrow> real \<Rightarrow> real \<Rightarrow> Vector3" where
  "vec3_create x y z = \<lparr>v3_x = x, v3_y = y, v3_z = z\<rparr>"

definition vec3_add :: "Vector3 \<Rightarrow> Vector3 \<Rightarrow> Vector3" where
  "vec3_add a b = vec3_create (v3_x a + v3_x b) (v3_y a + v3_y b) (v3_z a + v3_z b)"

definition vec3_mul :: "Vector3 \<Rightarrow> real \<Rightarrow> Vector3" where
  "vec3_mul a scalar = vec3_create (v3_x a * scalar) (v3_y a * scalar) (v3_z a * scalar)"

definition vec3_div :: "Vector3 \<Rightarrow> real \<Rightarrow> Vector3" where
  "vec3_div a scalar =
     (if scalar = 0 then a
      else vec3_create (v3_x a / scalar) (v3_y a / scalar) (v3_z a / scalar))"

definition vec3_length :: "Vector3 \<Rightarrow> real" where
  "vec3_length v = sqrt (v3_x v * v3_x v + v3_y v * v3_y v + v3_z v * v3_z v)"

definition vec3_normalize :: "Vector3 \<Rightarrow> Vector3" where
  "vec3_normalize v =
     (let length = vec3_length v in
      if length < 0.0001 then vec3_create 0 0 0 else vec3_div v length)"

definition vec3_from_angles :: "real \<Rightarrow> real \<Rightarrow> Vector3" where
  "vec3_from_angles pitch yaw =
     vec3_create (cos pitch * cos yaw) (cos pitch * sin yaw) (sin pitch)"

section \<open>Brightness of a cell (world.c, utils.h)\<close>

text \<open>
  What a \<open>float\<close> that is read from a world can hold: a real number, an
  infinity, or a NaN.
\<close>

datatype float = Finite real | PlusInfinity | MinusInfinity | NaN

text \<open>
  The value of a binary32 pattern with sign bit \<open>s\<close>, exponent field
  \<open>e\<close> and fraction field \<open>m\<close>. For \<open>e = 255\<close> it is a NaN when \<open>m\<close> is
  not 0, and otherwise the infinity of the sign. Every other pattern is the
  number \<open>m \<sqdot> 2\<^sup>-\<^sup>1\<^sup>4\<^sup>9\<close> for \<open>e = 0\<close>, and
  \<open>(2\<^sup>2\<^sup>3 + m) \<sqdot> 2\<^bsup>e - 150\<^esup>\<close> for \<open>0 < e < 255\<close>, negated when \<open>s\<close>
  is set.
\<close>

definition f32_val :: "32 word \<Rightarrow> float" where
  "f32_val b =
     (let e = unat (drop_bit 23 b AND 0xFF);
          m = unat (b AND 0x7FFFFF);
          mag = (if e = 0 then real m * 2 / 2 ^ 150
                 else (2 ^ 23 + real m) * 2 ^ e / 2 ^ 150)
      in if e = 255 then
           (if m \<noteq> 0 then NaN else if bit b 31 then MinusInfinity else PlusInfinity)
         else Finite (if bit b 31 then - mag else mag))"

text \<open>
  The product of a float and a real number, as in \<open>brightness *= 0.7f\<close>:
  a NaN stays a NaN, an infinity keeps or changes its sign with the sign of
  the factor, and its product with 0 is a NaN.
\<close>

fun float_times :: "float \<Rightarrow> real \<Rightarrow> float" where
  "float_times (Finite v) c = Finite (v * c)"
| "float_times PlusInfinity c =
     (if 0 < c then PlusInfinity else if c < 0 then MinusInfinity else NaN)"
| "float_times MinusInfinity c =
     (if 0 < c then MinusInfinity else if c < 0 then PlusInfinity else NaN)"
| "float_times NaN c = NaN"

text \<open>
  Modelled from the spec: \<open>clamp\<close> is declared in utils.h and its body
  (utils.c) is not part of the sources at hand. The spec says of its uses that
  the value ``is clamped to [0.2, 1.0]'' and ``clamped to [0,1]'': a value
  below the lower bound becomes the lower bound, a value above the upper bound
  becomes the upper bound, and any other value is returned as it is.
\<close>

definition clamp :: "real \<Rightarrow> real \<Rightarrow> real \<Rightarrow> real" where
  "clamp v lo hi = (if v < lo then lo else if v > hi then hi else v)"

text \<open>
  Modelled from the spec: \<open>clamp\<close> applied to a float that may be an infinity
  or a NaN. Plus infinity is above the upper bound and becomes the upper
  bound, minus infinity is below the lower bound and becomes the lower bound.
  A NaN is neither below nor above a bound, and the spec does not say what
  is returned for it: the result \<open>None\<close> stands for that value, which the
  sources at hand do not determine.
\<close>

fun clamp_float :: "float \<Rightarrow> real \<Rightarrow> real \<Rightarrow> real option" where
  "clamp_float (Finite v) lo hi = Some (clamp v lo hi)"
| "clamp_float PlusInfinity lo hi = Some hi"
| "clamp_float MinusInfinity lo hi = Some lo"
| "clamp_float NaN lo hi = None"

text \<open>
  The loop \<open>for (check_z = z + 1; check_z < world->depth; check_z++)\<close> of
  \<open>world_get_brightness\<close>, with the running brightness as accumulator.
\<close>

function brightness_loop :: "World \<Rightarrow> int \<Rightarrow> int \<Rightarrow> int \<Rightarrow> float \<Rightarrow> float" where
  "brightness_loop w x y check_z brightness =
     (if check_z < depth w then
        brightness_loop w x y (check_z + 1)
          (if world_is_valid_position (Some w) x y check_z then
             (let block_above = block_at w x y check_z in
              if block_above \<noteq> BLOCK_AIR \<and> block_above \<noteq> BLOCK_WATER
              then float_times brightness 0.7 else brightness)
           else brightness)
      else brightness)"
  by pat_completeness auto
termination
  by (relation "measure (\<lambda>(w, x, y, check_z, brightness). nat (depth w - check_z))") auto

declare brightness_loop.simps [simp del]

text \<open>
  \<open>world_get_brightness\<close>. The result is \<open>Some\<close> of the number returned,
  and \<open>None\<close> where the float handed to \<open>clamp\<close> is a NaN.
\<close>

definition world_get_brightness :: "World option \<Rightarrow> int \<Rightarrow> int \<Rightarrow> int \<Rightarrow> real option" where
  "world_get_brightness world x y z =
     (case world of
        None \<Rightarrow> Some 0
      | Some w \<Rightarrow>
          if \<not> world_is_valid_position world x y z then Some 0
          else clamp_float (brightness_loop w x y (z + 1) (f32_val (sky_brightness w))) 0.2 1.0)"

text \<open>
  The number of cells strictly above \<open>(x, y, z)\<close>, up to the ceiling of the
  grid, whose block is neither air nor water.
\<close>

definition occluders_above :: "World \<Rightarrow> int \<Rightarrow> int \<Rightarrow> int \<Rightarrow> nat" where
  "occluders_above w x y z =
     length (filter (\<lambda>cz. block_at w x y cz \<noteq> BLOCK_AIR \<and> block_at w x y cz \<noteq> BLOCK_WATER)
               [z + 1 .. depth w - 1])"

section \<open>The raycaster (raycaster.h, raycaster.c)\<close>

definition FOG_START :: real where "FOG_START = 10"
definition FOG_END :: real where "FOG_END = 15"
definition ENABLE_FOG :: bool where "ENABLE_FOG = True"

record RayHit =
  hit :: int
  block_type :: int
  distance :: real
  position :: Vector3
  normal :: Vector3
  face :: int
  brightness :: "real option"

definition face_normals :: "Vector3 list" where
  "face_normals =
     [vec3_create 1 0 0, vec3_create (-1) 0 0,
      vec3_create 0 1 0, vec3_create 0 (-1) 0,
      vec3_create 0 0 1, vec3_create 0 0 (-1)]"

definition face_brightness :: "real list" where
  "face_brightness = [0.8, 0.6, 1.0, 0.2, 0.9, 0.7]"

text \<open>The float nearest to the literal \<open>1e30f\<close>.\<close>

definition HUGE_T :: real where
  "HUGE_T = 1000000015047466219876688855040"

text \<open>
  The local variables of \<open>cast_ray\<close> that the loop changes
  (\<open>t_max_*\<close>, \<open>map_*\<close>, \<open>distance\<close>, \<open>face\<close>), and those it only
  reads (\<open>t_delta_*\<close>, \<open>step_*\<close>).
\<close>

record ray_state =
  t_max_x :: real
  t_max_y :: real
  t_max_z :: real
  map_x :: int
  map_y :: int
  map_z :: int
  cur_distance :: real
  cur_face :: int

record ray_steps =
  t_delta_x :: real
  t_delta_y :: real
  t_delta_z :: real
  step_x :: int
  step_y :: int
  step_z :: int

text \<open>
  The set-up of one axis, which \<open>cast_ray\<close> writes out three times: from
  the direction component, the origin component and the origin's cell it gives
  \<open>(t_delta, t_max, step)\<close>.
\<close>

definition axis_setup :: "real \<Rightarrow> real \<Rightarrow> int \<Rightarrow> real \<times> real \<times> int" where
  "axis_setup d p m =
     (if d = 0 then (HUGE_T, HUGE_T, 0)
      else if d > 0 then (1 / d, (1 / d) * (real_of_int (m + 1) - p), 1)
      else (1 / - d, (1 / - d) * (p - real_of_int m), -1))"

text \<open>The first part of the loop body: choose an axis and step along it.\<close>

definition dda_step :: "ray_steps \<Rightarrow> ray_state \<Rightarrow> ray_state" where
  "dda_step c s =
     (if t_max_x s < t_max_y s \<and> t_max_x s < t_max_z s then
        s\<lparr>cur_distance := t_max_x s,
          t_max_x := t_max_x s + t_delta_x c,
          map_x := map_x s + step_x c,
          cur_face := (if step_x c > 0 then 1 else 0)\<rparr>
      else if t_max_y s < t_max_z s then
        s\<lparr>cur_distance := t_max_y s,
          t_max_y := t_max_y s + t_delta_y c,
          map_y := map_y s + step_y c,
          cur_face := (if step_y c > 0 then 3 else 2)\<rparr>
      else
        s\<lparr>cur_distance := t_max_z s,
          t_max_z := t_max_z s + t_delta_z c,
          map_z := map_z s + step_z c,
          cur_face := (if step_z c > 0 then 5 else 4)\<rparr>)"

text \<open>
  What \<open>cast_ray\<close> stores in \<open>result\<close> when the cell it stepped into holds
  a block. The field \<open>brightness\<close> is \<open>Some\<close> of the number stored, and
  \<open>None\<close> where \<open>world_get_brightness\<close> is: the lighting is computed
  from a value that the sources at hand do not determine.
\<close>

definition hit_result ::
  "World \<Rightarrow> Vector3 \<Rightarrow> Vector3 \<Rightarrow> RayHit \<Rightarrow> ray_state \<Rightarrow> uint8_t \<Rightarrow> RayHit" where
  "hit_result world ray_pos ray_dir result s bt =
     (let b0 = map_option (\<lambda>b. b * face_brightness ! nat (cur_face s))
                 (world_get_brightness (Some world) (map_x s) (map_y s) (map_z s));
          b1 = (if ENABLE_FOG then
                  (let fog_factor =
                     clamp ((cur_distance s - FOG_START) / (FOG_END - FOG_START)) 0 1
                   in map_option (\<lambda>b. b * (1 - fog_factor * 0.8)) b0)
                else b0)
      in result\<lparr>hit := 1,
                block_type := uint bt,
                distance := cur_distance s,
                position := vec3_add ray_pos (vec3_mul ray_dir (cur_distance s)),
                normal := face_normals ! nat (cur_face s),
                face := cur_face s,
                brightness := map_option (\<lambda>b. clamp b 0.2 1.0) b1\<rparr>)"

text \<open>
  The loop \<open>while (distance < max_distance)\<close>. Nothing in its body bounds the
  number of iterations, so the model is a partial function: \<open>None\<close> stands
  for a loop that never exits.
\<close>

partial_function (option) dda_loop ::
  "World \<Rightarrow> Vector3 \<Rightarrow> Vector3 \<Rightarrow> real \<Rightarrow> ray_steps \<Rightarrow> RayHit \<Rightarrow> ray_state \<Rightarrow> RayHit option"
  where
  "dda_loop world ray_pos ray_dir max_distance c result s =
     (if cur_distance s < max_distance then
        (let s' = dda_step c s in
         if map_x s' < 0 \<or> map_y s' < 0 \<or> map_z s' < 0 \<or>
            map_x s' \<ge> width world \<or> map_y s' \<ge> height world \<or> map_z s' \<ge> depth world
         then Some result
         else
           (let bt = world_get_block (Some world) (map_x s') (map_y s') (map_z s') in
            if bt \<noteq> BLOCK_AIR then Some (hit_result world ray_pos ray_dir result s' bt)
            else dda_loop world ray_pos ray_dir max_distance c result s'))
      else Some result)"

definition cast_ray :: "World \<Rightarrow> Vector3 \<Rightarrow> Vector3 \<Rightarrow> real \<Rightarrow> RayHit option" where
  "cast_ray world pos direction max_distance =
     (let ray_pos = pos;
          ray_dir = vec3_normalize direction;
          result = \<lparr>hit = 0, block_type = 0, distance = max_distance,
                    position = vec3_create 0 0 0, normal = vec3_create 0 0 0,
                    face = 0, brightness = Some 0\<rparr>;
          mx = \<lfloor>v3_x ray_pos\<rfloor>;
          my = \<lfloor>v3_y ray_pos\<rfloor>;
          mz = \<lfloor>v3_z ray_pos\<rfloor>;
          (dx, tx, sx) = axis_setup (v3_x ray_dir) (v3_x ray_pos) mx;
          (dy, ty, sy) = axis_setup (v3_y ray_dir) (v3_y ray_pos) my;
          (dz, tz, sz) = axis_setup (v3_z ray_dir) (v3_z ray_pos) mz
      in dda_loop world ray_pos ray_dir max_distance
           \<lparr>t_delta_x = dx, t_delta_y = dy, t_delta_z = dz,
            step_x = sx, step_y = sy, step_z = sz\<rparr>
           result
           \<lparr>t_max_x = tx, t_max_y = ty, t_max_z = tz,
            map_x = mx, map_y = my, map_z = mz,
            cur_distance = 0, cur_face = 0\<rparr>)"

section \<open>The player (player.h, player.c)\<close>

definition WORLD_WIDTH :: int where "WORLD_WIDTH = 64"
definition WORLD_HEIGHT :: int where "WORLD_HEIGHT = 64"
definition GROUND_HEIGHT :: int where "GROUND_HEIGHT = 3"
definition EYE_HEIGHT :: real where "EYE_HEIGHT = 1.6"
definition PLAYER_HEIGHT :: real where "PLAYER_HEIGHT = 1.8"
definition PLAYER_WIDTH :: real where "PLAYER_WIDTH = 0.6"

text \<open>
  The functions of player.c return at once, without any effect, when they are
  given a \<open>NULL\<close> player or world; the model takes the objects themselves.
  In \<open>rotation\<close>, the component \<open>x\<close> is the pitch and \<open>y\<close> the yaw. The
  array \<open>inventory\<close> is allocated by \<open>player_create\<close> with
  \<open>MAX_BLOCK_TYPES\<close> entries.
\<close>

record Player =
  position :: Vector3
  velocity :: Vector3
  rotation :: Vector2
  height :: real
  width :: real
  grounded :: int
  flying :: int
  health :: real
  stamina :: real
  selected_slot :: int
  inventory :: "uint8_t list"

definition player_create :: Player where
  "player_create =
     \<lparr>position = vec3_create (real_of_int WORLD_WIDTH / 2) (real_of_int WORLD_HEIGHT / 2)
                   (real_of_int GROUND_HEIGHT + EYE_HEIGHT),
      velocity = vec3_create 0 0 0,
      rotation = vec2_create 0 0,
      height = PLAYER_HEIGHT,
      width = PLAYER_WIDTH,
      grounded = 0,
      flying = 0,
      health = 100,
      stamina = 100,
      selected_slot = 1,
      inventory = (replicate MAX_BLOCK_TYPES 0)
        [unat BLOCK_DIRT := 64, unat BLOCK_STONE := 64, unat BLOCK_GRASS := 64,
         unat BLOCK_WOOD := 16, unat BLOCK_BRICK := 16]\<rparr>"

subsection \<open>Turning\<close>

text \<open>
  Whether the yaw of \<open>player_rotate\<close> ends up inside its range depends
  on how the sums and differences are rounded, so this function takes the
  arithmetic as a parameter: \<open>to_float\<close> is the value that a \<open>float\<close>
  variable holds after a real number is stored in it, \<open>to_double\<close> the
  result of an operation on \<open>double\<close>, and \<open>M_PI\<close> the constant of math.h.
\<close>

record arith =
  to_float :: "real \<Rightarrow> real"
  to_double :: "real \<Rightarrow> real"
  M_PI :: real

text \<open>Exact arithmetic: nothing is rounded, and \<open>M_PI\<close> is \<open>\<pi>\<close>.\<close>

definition exact :: arith where
  "exact = \<lparr>to_float = (\<lambda>x. x), to_double = (\<lambda>x. x), M_PI = pi\<rparr>"

text \<open>
  Rounding to the nearest number with a significand of \<open>p\<close> bits, a tie
  going to the even significand. The exponent is not bounded, so this is the
  rounding of IEEE 754 for results inside the normal range of the format.
\<close>

definition round_half_even :: "real \<Rightarrow> int" where
  "round_half_even q =
     (let f = \<lfloor>q\<rfloor> in
      if q - of_int f < 1/2 then f
      else if q - of_int f > 1/2 then f + 1
      else if even f then f else f + 1)"

definition round_to :: "nat \<Rightarrow> real \<Rightarrow> real" where
  "round_to p x =
     (if x = 0 then 0
      else let e = \<lfloor>log 2 \<bar>x\<bar>\<rfloor> - int p + 1
           in of_int (round_half_even (x / 2 powr of_int e)) * 2 powr of_int e)"

text \<open>
  The arithmetic of binary32 and binary64, with \<open>M_PI\<close> the double nearest
  to \<open>\<pi>\<close>, which is \<open>884279719003555 / 2\<^sup>4\<^sup>8\<close>.
\<close>

definition ieee :: arith where
  "ieee = \<lparr>to_float = round_to 24, to_double = round_to 53,
            M_PI = 884279719003555 / 281474976710656\<rparr>"

text \<open>
  The two loops that wrap the yaw. The operand \<open>2.0f * M_PI\<close> is a
  double, so the comparison and the difference or sum are formed in double and
  the result is stored in the float \<open>rotation.y\<close>. Neither loop has a bound
  on its iterations: \<open>None\<close> stands for a loop that never exits.
\<close>

partial_function (option) wrap_down :: "arith \<Rightarrow> real \<Rightarrow> real option" where
  "wrap_down a y =
     (if y \<ge> to_double a (2 * M_PI a)
      then wrap_down a (to_float a (to_double a (y - to_double a (2 * M_PI a))))
      else Some y)"

partial_function (option) wrap_up :: "arith \<Rightarrow> real \<Rightarrow> real option" where
  "wrap_up a y =
     (if y < 0
      then wrap_up a (to_float a (to_double a (y + to_double a (2 * M_PI a))))
      else Some y)"

definition player_rotate :: "arith \<Rightarrow> Player \<Rightarrow> real \<Rightarrow> real \<Rightarrow> Player option" where
  "player_rotate a player pitch yaw =
     (let rx = to_float a (v2_x (rotation player) + pitch);
          ry = to_float a (v2_y (rotation player) + yaw);
          rx = (if rx > 1.5 then 1.5 else rx);
          rx = (if rx < - 1.5 then - 1.5 else rx)
      in case wrap_down a ry of
           None \<Rightarrow> None
         | Some ry \<Rightarrow>
             (case wrap_up a ry of
                None \<Rightarrow> None
              | Some ry \<Rightarrow> Some (player\<lparr>rotation := \<lparr>v2_x = rx, v2_y = ry\<rparr>\<rparr>)))"

text \<open>A sequence of calls, one for each pair of a pitch and a yaw delta.\<close>

fun rotate_all :: "arith \<Rightarrow> Player \<Rightarrow> (real \<times> real) list \<Rightarrow> Player option" where
  "rotate_all a player [] = Some player"
| "rotate_all a player ((pitch, yaw) # ds) =
     (case player_rotate a player pitch yaw of
        None \<Rightarrow> None
      | Some player' \<Rightarrow> rotate_all a player' ds)"

text \<open>The range in which the claims keep the pitch and the yaw.\<close>

definition rotation_in_range :: "Player \<Rightarrow> bool" where
  "rotation_in_range p =
     (- 1.5 \<le> v2_x (rotation p) \<and> v2_x (rotation p) \<le> 1.5 \<and>
      0 \<le> v2_y (rotation p) \<and> v2_y (rotation p) < 2 * pi)"


definition player_get_camera_position :: "Player \<Rightarrow> Vector3" where
  "player_get_camera_position player = Player.position player"

definition player_get_view_direction :: "Player \<Rightarrow> Vector3" where
  "player_get_view_direction player =
     vec3_from_angles (v2_x (rotation player)) (v2_y (rotation player))"

subsection \<open>Placing and breaking blocks, the inventory\<close>

text \<open>
  Two things can keep an interaction from returning a new state: the ray loop
  may not exit, and \<open>inventory[block_type]\<close> is read and written without a
  check of the index, which is outside the array for an id beyond its last
  entry. Both are results of the model.
\<close>

datatype fault = RayDiverges | InventoryIndexOutOfBounds

text \<open>
  The cell that \<open>player_place_block\<close> computes from a hit (half a unit
  from the hit point along the normal of the face), and the cell that
  \<open>player_break_block\<close> computes from it (the cell of the hit point).
\<close>

definition place_target :: "RayHit \<Rightarrow> int \<times> int \<times> int" where
  "place_target h =
     (\<lfloor>v3_x (RayHit.position h) + v3_x (normal h) * 0.5\<rfloor>,
      \<lfloor>v3_y (RayHit.position h) + v3_y (normal h) * 0.5\<rfloor>,
      \<lfloor>v3_z (RayHit.position h) + v3_z (normal h) * 0.5\<rfloor>)"

definition break_target :: "RayHit \<Rightarrow> int \<times> int \<times> int" where
  "break_target h =
     (\<lfloor>v3_x (RayHit.position h)\<rfloor>, \<lfloor>v3_y (RayHit.position h)\<rfloor>, \<lfloor>v3_z (RayHit.position h)\<rfloor>)"

definition player_place_block ::
  "Player \<Rightarrow> World \<Rightarrow> uint8_t \<Rightarrow> fault + (Player \<times> World)" where
  "player_place_block player world type =
     (case cast_ray world (player_get_camera_position player)
             (player_get_view_direction player) 5 of
        None \<Rightarrow> Inl RayDiverges
      | Some h \<Rightarrow>
          if hit h \<noteq> 0 then
            (let (x, y, z) = place_target h
             in if world_is_valid_position (Some world) x y z then
                  (if \<not> unat type < length (inventory player)
                   then Inl InventoryIndexOutOfBounds
                   else if inventory player ! unat type > 0 then
                     Inr (player\<lparr>inventory := (inventory player)
                                  [unat type := inventory player ! unat type - 1]\<rparr>,
                          world_set_block world x y z type)
                   else Inr (player, world))
                else Inr (player, world))
          else Inr (player, world))"

definition player_break_block :: "Player \<Rightarrow> World \<Rightarrow> fault + (Player \<times> World)" where
  "player_break_block player world =
     (case cast_ray world (player_get_camera_position player)
             (player_get_view_direction player) 5 of
        None \<Rightarrow> Inl RayDiverges
      | Some h \<Rightarrow>
          if hit h \<noteq> 0 then
            (let (x, y, z) = break_target h;
                 type = world_get_block (Some world) x y z
             in if \<not> unat type < length (inventory player)
                then Inl InventoryIndexOutOfBounds
                else Inr (player\<lparr>inventory := (inventory player)
                             [unat type := inventory player ! unat type + 1]\<rparr>,
                          world_set_block world x y z BLOCK_AIR))
          else Inr (player, world))"

definition player_select_slot :: "Player \<Rightarrow> int \<Rightarrow> Player" where
  "player_select_slot player slot =
     (if slot \<ge> 1 \<and> slot \<le> 9 then player\<lparr>selected_slot := slot\<rparr> else player)"

text \<open>The \<open>int\<close> slot is converted to the \<open>uint8_t\<close> that is returned.\<close>

definition player_get_selected_block :: "Player \<Rightarrow> uint8_t" where
  "player_get_selected_block player = word_of_int (selected_slot player)"

text \<open>
  In \<open>inventory[block_type] += amount\<close> the sum is formed in \<open>int\<close> and
  converted back to \<open>uint8_t\<close>.
\<close>

definition player_give_block :: "Player \<Rightarrow> uint8_t \<Rightarrow> int \<Rightarrow> Player" where
  "player_give_block player type amount =
     (if unat type < MAX_BLOCK_TYPES then
        player\<lparr>inventory := (inventory player)
          [unat type := word_of_int (uint (inventory player ! unat type) + amount)]\<rparr>
      else player)"

text \<open>
  The branch of \<open>game_process_input\<close> (main.c) for the key \<open>e\<close>:
  \<open>player_place_block(game->player, game->world, game->player->selected_slot)\<close>,
  where the \<open>int\<close> slot is converted to the \<open>uint8_t\<close> parameter.
\<close>

definition game_process_input_place :: "Player \<Rightarrow> World \<Rightarrow> fault + (Player \<times> World)" where
  "game_process_input_place player world =
     player_place_block player world (word_of_int (selected_slot player))"

section \<open>Saving and loading a world (world.c)\<close>

text \<open>
  A file is the list of its bytes. \<open>fwrite\<close> and \<open>fread\<close> move the
  object representation of a value: the four bytes of an \<open>int\<close> or a
  \<open>float\<close>, least significant byte first (the order of the x86 targets of
  this program; any fixed order gives the same results below).
\<close>

definition word_bytes :: "32 word \<Rightarrow> uint8_t list" where
  "word_bytes v = [ucast v, ucast (drop_bit 8 v), ucast (drop_bit 16 v), ucast (drop_bit 24 v)]"

definition bytes_word :: "uint8_t list \<Rightarrow> 32 word" where
  "bytes_word bs =
     ucast (bs ! 0) OR push_bit 8 (ucast (bs ! 1)) OR push_bit 16 (ucast (bs ! 2))
       OR push_bit 24 (ucast (bs ! 3))"

definition int_bytes :: "int \<Rightarrow> uint8_t list" where
  "int_bytes i = word_bytes (word_of_int i)"

text \<open>
  \<open>fread(&v, 4, 1, file) != 1\<close>: the read succeeds when four bytes are
  left. The result is the value and the rest of the file.
\<close>

definition fread_int :: "uint8_t list \<Rightarrow> (int \<times> uint8_t list) option" where
  "fread_int bs =
     (if length bs < 4 then None else Some (sint (bytes_word (take 4 bs)), drop 4 bs))"

definition fread_float :: "uint8_t list \<Rightarrow> (32 word \<times> uint8_t list) option" where
  "fread_float bs =
     (if length bs < 4 then None else Some (bytes_word (take 4 bs), drop 4 bs))"

text \<open>
  \<open>world_create\<close>. An allocation whose element count is negative fails (the
  count converts to a size that no allocation can satisfy); every other
  allocation is taken to succeed. The planes are allocated for \<open>z\<close> from 0,
  the rows of a plane for \<open>y\<close> from 0, so the first failing allocation is
  found as follows.
\<close>

definition world_create :: "int \<Rightarrow> int \<Rightarrow> int \<Rightarrow> World option" where
  "world_create w h d =
     (if d < 0 then None
      else if d > 0 \<and> h < 0 then None
      else if d > 0 \<and> h > 0 \<and> w < 0 then None
      else Some
        \<lparr>World.width = w, World.height = h, depth = d,
         blocks = replicate (nat d) (replicate (nat h) (replicate (nat w) BLOCK_AIR)),
         block_types = default_block_types,
         num_block_types = int MAX_BLOCK_TYPES,
         time_of_day = 0x3F000000,
         sky_brightness = 0x3F800000\<rparr>)"

text \<open>
  \<open>world_save\<close>, for a file that could be opened: \<open>None\<close> is the return
  value 0 (nothing is written), \<open>Some bs\<close> the return value 1 with the
  bytes written. Row \<open>blocks[z][y]\<close> is written with \<open>width\<close> bytes.
\<close>

definition write_blocks :: "World \<Rightarrow> uint8_t list" where
  "write_blocks w =
     concat (map (\<lambda>z.
       concat (map (\<lambda>y. take (nat (World.width w)) (blocks w ! z ! y))
                 [0 ..< nat (World.height w)]))
       [0 ..< nat (depth w)])"

definition world_save :: "World option \<Rightarrow> uint8_t list option" where
  "world_save world =
     (case world of
        None \<Rightarrow> None
      | Some w \<Rightarrow>
          Some (int_bytes (World.width w) @ int_bytes (World.height w) @ int_bytes (depth w)
                @ write_blocks w
                @ word_bytes (time_of_day w) @ word_bytes (sky_brightness w)))"

text \<open>
  The two nested loops of \<open>world_load\<close> that fill the allocated rows: each
  row takes \<open>n = width\<close> bytes, and a short read ends the load.
\<close>

fun read_rows ::
  "nat \<Rightarrow> uint8_t list list \<Rightarrow> uint8_t list \<Rightarrow> (uint8_t list list \<times> uint8_t list) option" where
  "read_rows n [] bs = Some ([], bs)"
| "read_rows n (row # rows) bs =
     (if length (take n bs) \<noteq> n then None
      else case read_rows n rows (drop n bs) of
             None \<Rightarrow> None
           | Some (rows', rest) \<Rightarrow> Some (take n bs # rows', rest))"

fun read_planes ::
  "nat \<Rightarrow> uint8_t list list list \<Rightarrow> uint8_t list \<Rightarrow>
   (uint8_t list list list \<times> uint8_t list) option" where
  "read_planes n [] bs = Some ([], bs)"
| "read_planes n (plane # planes) bs =
     (case read_rows n plane bs of
        None \<Rightarrow> None
      | Some (plane', rest) \<Rightarrow>
          (case read_planes n planes rest of
             None \<Rightarrow> None
           | Some (planes', rest') \<Rightarrow> Some (plane' # planes', rest')))"

text \<open>
  \<open>world_load\<close>: the argument is the content of the file, \<open>None\<close> when it
  cannot be opened; the result \<open>None\<close> is the return value \<open>NULL\<close>.
\<close>

definition world_load :: "uint8_t list option \<Rightarrow> World option" where
  "world_load file =
     (case file of
        None \<Rightarrow> None
      | Some bs \<Rightarrow>
     (case fread_int bs of
        None \<Rightarrow> None
      | Some (w, bs1) \<Rightarrow>
     (case fread_int bs1 of
        None \<Rightarrow> None
      | Some (h, bs2) \<Rightarrow>
     (case fread_int bs2 of
        None \<Rightarrow> None
      | Some (d, bs3) \<Rightarrow>
     (case world_create w h d of
        None \<Rightarrow> None
      | Some world \<Rightarrow>
     (case read_planes (nat (World.width world)) (blocks world) bs3 of
        None \<Rightarrow> None
      | Some (blocks', bs4) \<Rightarrow>
     (case fread_float bs4 of
        None \<Rightarrow> None
      | Some (t, bs5) \<Rightarrow>
     (case fread_float bs5 of
        None \<Rightarrow> None
      | Some (sb, bs6) \<Rightarrow>
          Some (world\<lparr>blocks := blocks', time_of_day := t, sky_brightness := sb\<rparr>)))))))))"

text \<open>
  The shape that \<open>world_create\<close> gives a grid and that the loops over
  \<open>blocks\<close> rely on: \<open>depth\<close> planes of \<open>height\<close> rows of \<open>width\<close>
  cells.
\<close>

definition grid_shape :: "World \<Rightarrow> bool" where
  "grid_shape w =
     (length (blocks w) = nat (depth w) \<and>
      (\<forall>plane \<in> set (blocks w). length plane = nat (World.height w) \<and>
         (\<forall>row \<in> set plane. length row = nat (World.width w))))"

text \<open>A world as the program builds it: that shape, with non-negative \<open>int\<close> dimensions.\<close>

definition world_wf :: "World \<Rightarrow> bool" where
  "world_wf w =
     (0 \<le> World.width w \<and> World.width w < 2 ^ 31 \<and>
      0 \<le> World.height w \<and> World.height w < 2 ^ 31 \<and>
      0 \<le> depth w \<and> depth w < 2 ^ 31 \<and>
      grid_shape w)"

text \<open>
  The \<open>k\<close>-th \<open>int\<close> of a file's header: 0 for the width, 1 for the
  height, 2 for the depth.
\<close>

definition header_dim :: "nat \<Rightarrow> uint8_t list \<Rightarrow> int" where
  "header_dim k bs = sint (bytes_word (take 4 (drop (4 * k) bs)))"

section \<open>Concrete scenes\<close>

text \<open>
  A grid of width, height and depth 2 whose only block is a stone at
  \<open>(0,0,0)\<close>, as \<open>world_create\<close> followed by one \<open>world_set_block\<close>
  gives it.
\<close>

definition single_block_world :: World where
  "single_block_world =
     \<lparr>World.width = 2, World.height = 2, depth = 2,
      blocks = [[[BLOCK_STONE, BLOCK_AIR], [BLOCK_AIR, BLOCK_AIR]],
                [[BLOCK_AIR, BLOCK_AIR], [BLOCK_AIR, BLOCK_AIR]]],
      block_types = default_block_types, num_block_types = 16,
      time_of_day = 0x3F000000, sky_brightness = 0x3F800000\<rparr>"

text \<open>The 28 bytes of the file that holds \<open>single_block_world\<close>.\<close>

definition single_block_file :: "uint8_t list" where
  "single_block_file =
     [2, 0, 0, 0,  2, 0, 0, 0,  2, 0, 0, 0,
      3, 0, 0, 0, 0, 0, 0, 0,
      0, 0, 0, 0x3F,  0, 0, 0x80, 0x3F]"

text \<open>
  A column of three cells: a stone at the bottom, water above it, and a stone
  on top, under a sky of brightness 1.
\<close>

definition column_world :: World where
  "column_world =
     \<lparr>World.width = 1, World.height = 1, depth = 3,
      blocks = [[[BLOCK_STONE]], [[BLOCK_WATER]], [[BLOCK_STONE]]],
      block_types = default_block_types, num_block_types = 16,
      time_of_day = 0x3F000000, sky_brightness = 0x3F800000\<rparr>"

text \<open>
  A corridor of four cells along X whose last two cells are stone, and a
  player in its first cell who looks along X (pitch and yaw 0). The player
  \<open>corridor_player\<close> has the inventory of \<open>player_create\<close>, with 64
  stones; \<open>full_player\<close> has 255 stones.
\<close>

definition corridor_world :: World where
  "corridor_world =
     \<lparr>World.width = 4, World.height = 1, depth = 1,
      blocks = [[[BLOCK_AIR, BLOCK_AIR, BLOCK_STONE, BLOCK_STONE]]],
      block_types = default_block_types, num_block_types = 16,
      time_of_day = 0x3F000000, sky_brightness = 0x3F800000\<rparr>"

definition corridor_player :: Player where
  "corridor_player = player_create\<lparr>position := vec3_create (1/2) (1/2) (1/2)\<rparr>"

definition full_player :: Player where
  "full_player =
     corridor_player\<lparr>inventory := (inventory corridor_player)[unat BLOCK_STONE := 255]\<rparr>"

text \<open>
  The corridor without its first stone, and the player whose count of stones
  is 0.
\<close>

definition emptied_corridor :: World where
  "emptied_corridor =
     corridor_world\<lparr>blocks := [[[BLOCK_AIR, BLOCK_AIR, BLOCK_AIR, BLOCK_STONE]]]\<rparr>"

definition drained_player :: Player where
  "drained_player =
     corridor_player\<lparr>inventory := (inventory corridor_player)[unat BLOCK_STONE := 0]\<rparr>"

text \<open>
  The float that the literal \<open>0.05f\<close> of \<open>PLAYER_TURN_SPEED\<close> denotes,
  \<open>13421773 / 2\<^sup>2\<^sup>8\<close>, which \<open>game_process_input\<close> passes as yaw delta
  (negated for the key \<open>a\<close>). The player \<open>turned_player\<close> has the yaw
  \<open>13421763 / 2\<^sup>2\<^sup>8\<close>, a float slightly below that one. The number
  \<open>float_two_pi\<close> is the float nearest to \<open>2\<pi>\<close>, \<open>below_zero\<close> is the
  sum of that yaw and the negated turn speed, and \<open>huge_delta\<close> is a float
  too large for a subtraction of \<open>2\<pi>\<close> to change it.
\<close>

definition PLAYER_TURN_SPEED :: real where "PLAYER_TURN_SPEED = 13421773 / 268435456"

definition turned_player :: Player where
  "turned_player = corridor_player\<lparr>rotation := \<lparr>v2_x = 0, v2_y = 13421763 / 268435456\<rparr>\<rparr>"

definition float_two_pi :: real where "float_two_pi = 13176795 / 2097152"

definition below_zero :: real where "below_zero = - 5 / 2 ^ 27"

definition huge_delta :: real where "huge_delta = 2 ^ 100"

text \<open>
  A corridor with a single stone in its second cell, and a player in its last
  cell who looks back along X (yaw \<open>\<pi>\<close>).
\<close>

definition back_world :: World where
  "back_world =
     \<lparr>World.width = 4, World.height = 1, depth = 1,
      blocks = [[[BLOCK_AIR, BLOCK_STONE, BLOCK_AIR, BLOCK_AIR]]],
      block_types = default_block_types, num_block_types = 16,
      time_of_day = 0x3F000000, sky_brightness = 0x3F800000\<rparr>"

definition back_player :: Player where
  "back_player = player_create\<lparr>position := vec3_create (7/2) (1/2) (1/2),
                                rotation := vec2_create 0 pi\<rparr>"

text \<open>
  A ray state in which the X and the Y boundary are equally near and nearer
  than the Z boundary, with a ray that advances on all three axes.
\<close>

definition tie_steps :: ray_steps where
  "tie_steps = \<lparr>t_delta_x = 1, t_delta_y = 1, t_delta_z = 1,
                step_x = 1, step_y = 1, step_z = 1\<rparr>"

definition tie_state :: ray_state where
  "tie_state = \<lparr>t_max_x = 1, t_max_y = 1, t_max_z = 2,
                map_x = 0, map_y = 0, map_z = 0, cur_distance = 0, cur_face = 0\<rparr>"

section \<open>Out-of-range queries\<close>

text \<open>
  Claim C6. For every grid, whatever it contains, and every coordinate outside
  \<open>[0,W) \<times> [0,H) \<times> [0,D)\<close>, \<open>world_get_block\<close> returns the air id 0 and
  \<open>world_is_solid\<close> returns 0 (false). Both functions are total, so neither
  query fails.
\<close>

theorem out_of_range_is_air:
  "\<not> (0 \<le> x \<and> x < World.width w \<and> 0 \<le> y \<and> y < World.height w \<and> 0 \<le> z \<and> z < depth w) \<Longrightarrow>
   world_get_block (Some w) x y z = 0 \<and> world_is_solid (Some w) x y z = 0"
  by (auto simp: world_get_block_def world_is_solid_def world_is_valid_position_def
      BLOCK_AIR_def)

theorem out_of_range_is_air_witness:
  "\<not> (0 \<le> (0::int) \<and> (0::int) < World.width single_block_world \<and>
      0 \<le> (0::int) \<and> (0::int) < World.height single_block_world \<and>
      0 \<le> (5::int) \<and> (5::int) < depth single_block_world) \<and>
   world_get_block (Some single_block_world) 0 0 5 = 0 \<and>
   world_is_solid (Some single_block_world) 0 0 5 = 0"
  using out_of_range_is_air [of 0 single_block_world 0 5]
  by (simp add: single_block_world_def)

text \<open>A \<open>NULL\<close> world is answered in the same way.\<close>

lemma null_world_is_air:
  "world_get_block None x y z = 0 \<and> world_is_solid None x y z = 0"
  by (simp add: world_get_block_def world_is_solid_def BLOCK_AIR_def)

section \<open>Rays\<close>

lemma f32_val_one: "f32_val 0x3F800000 = Finite 1"
  by (simp add: f32_val_def)

lemma normalize_down: "vec3_normalize (vec3_create 0 0 (-1)) = vec3_create 0 0 (-1)"
  by (simp add: vec3_normalize_def vec3_length_def vec3_create_def vec3_div_def)

text \<open>The state in which a ray that points straight down enters the loop.\<close>

lemma setup_down_from:
  "cast_ray w (vec3_create (1/2) (1/2) p) (vec3_create 0 0 (-1)) m =
   dda_loop w (vec3_create (1/2) (1/2) p) (vec3_create 0 0 (-1)) m
     \<lparr>t_delta_x = HUGE_T, t_delta_y = HUGE_T, t_delta_z = 1,
      step_x = 0, step_y = 0, step_z = -1\<rparr>
     \<lparr>hit = 0, block_type = 0, distance = m,
      position = vec3_create 0 0 0, normal = vec3_create 0 0 0,
      face = 0, brightness = Some 0\<rparr>
     \<lparr>t_max_x = HUGE_T, t_max_y = HUGE_T, t_max_z = p - real_of_int \<lfloor>p\<rfloor>,
      map_x = 0, map_y = 0, map_z = \<lfloor>p\<rfloor>, cur_distance = 0, cur_face = 0\<rparr>"
  by (simp add: cast_ray_def normalize_down)
     (simp add: vec3_create_def axis_setup_def Let_def)

text \<open>
  From height 5 the first step leads into the cell with \<open>z = 4\<close>. In a grid
  of depth at most 4 that cell is outside, and the loop is left with the
  result still a miss.
\<close>

lemma cast_ray_above_grid:
  assumes "depth w \<le> 4"
  shows "cast_ray w (vec3_create (1/2) (1/2) 5) (vec3_create 0 0 (-1)) 10 =
         Some \<lparr>hit = 0, block_type = 0, distance = 10,
               position = vec3_create 0 0 0, normal = vec3_create 0 0 0,
               face = 0, brightness = Some 0\<rparr>"
  using assms
  by (simp add: setup_down_from, subst dda_loop.simps)
     (simp add: dda_step_def HUGE_T_def)

lemma cast_ray_inside_grid:
  assumes "World.width w = 2" "World.height w = 2" "depth w = 2"
    and "world_get_block (Some w) 0 0 0 \<noteq> BLOCK_AIR"
  shows "\<exists>h. cast_ray w (vec3_create (1/2) (1/2) (3/2)) (vec3_create 0 0 (-1)) 10 = Some h \<and>
           hit h = 1 \<and> face h = 4 \<and> distance h = 1/2 \<and>
           RayHit.position h = vec3_create (1/2) (1/2) 1"
  using assms
  by (simp add: setup_down_from, subst dda_loop.simps)
     (simp add: dda_step_def HUGE_T_def hit_result_def vec3_add_def vec3_mul_def
        vec3_create_def Let_def)

text \<open>
  Claim C1, as the code has it. In a grid of width, height and depth 2 (with
  any content), \<open>cast_ray\<close> from \<open>(0.5, 0.5, 5)\<close> in direction
  \<open>(0, 0, -1)\<close> with maximal distance 10 returns a miss: \<open>hit\<close> is 0 and
  \<open>distance\<close> is the maximal distance 10, because the first cell the ray
  steps into, \<open>(0, 0, 4)\<close>, is outside the grid. The face 4, a hit point
  \<open>(0.5, 0.5, 1)\<close> and \<open>hit = 1\<close> are what the same ray returns when it
  starts inside the grid, from \<open>(0.5, 0.5, 1.5)\<close>, above a block at
  \<open>(0,0,0)\<close>; its distance is then 0.5.
\<close>

theorem cast_ray_single_block_grid:
  assumes "World.width w = 2" and "World.height w = 2" and "depth w = 2"
  shows "cast_ray w (vec3_create (1/2) (1/2) 5) (vec3_create 0 0 (-1)) 10 =
           Some \<lparr>hit = 0, block_type = 0, distance = 10,
                 position = vec3_create 0 0 0, normal = vec3_create 0 0 0,
                 face = 0, brightness = Some 0\<rparr> \<and>
         (world_get_block (Some w) 0 0 0 \<noteq> BLOCK_AIR \<longrightarrow>
            (\<exists>h. cast_ray w (vec3_create (1/2) (1/2) (3/2)) (vec3_create 0 0 (-1)) 10 = Some h \<and>
               hit h = 1 \<and> face h = 4 \<and> distance h = 1/2 \<and>
               RayHit.position h = vec3_create (1/2) (1/2) 1))"
  using assms cast_ray_above_grid [of w] cast_ray_inside_grid [of w] by simp

theorem cast_ray_single_block_grid_witness:
  "World.width single_block_world = 2 \<and> World.height single_block_world = 2 \<and>
   depth single_block_world = 2 \<and>
   world_get_block (Some single_block_world) 0 0 0 \<noteq> BLOCK_AIR \<and>
   cast_ray single_block_world (vec3_create (1/2) (1/2) 5) (vec3_create 0 0 (-1)) 10 =
     Some \<lparr>hit = 0, block_type = 0, distance = 10,
           position = vec3_create 0 0 0, normal = vec3_create 0 0 0,
           face = 0, brightness = Some 0\<rparr> \<and>
   (\<exists>h. cast_ray single_block_world (vec3_create (1/2) (1/2) (3/2)) (vec3_create 0 0 (-1)) 10
           = Some h \<and>
      hit h = 1 \<and> face h = 4 \<and> distance h = 1/2 \<and>
      RayHit.position h = vec3_create (1/2) (1/2) 1)"
proof -
  have d: "World.width single_block_world = 2" "World.height single_block_world = 2"
    "depth single_block_world = 2"
    by (simp_all add: single_block_world_def)
  have b: "world_get_block (Some single_block_world) 0 0 0 \<noteq> BLOCK_AIR"
    by (simp add: single_block_world_def world_get_block_def world_is_valid_position_def
        block_at_def BLOCK_AIR_def BLOCK_STONE_def)
  show ?thesis
    using cast_ray_single_block_grid [OF d] d b by simp
qed

text \<open>
  The claim as it is written asks for \<open>hit = 1\<close> at distance 4 for the ray
  from \<open>(0.5, 0.5, 5)\<close>. On the grid with the single stone the ray is a
  miss.
\<close>

theorem cast_ray_from_above_is_a_miss:
  "cast_ray single_block_world (vec3_create (1/2) (1/2) 5) (vec3_create 0 0 (-1)) 10 =
     Some \<lparr>hit = 0, block_type = 0, distance = 10,
           position = vec3_create 0 0 0, normal = vec3_create 0 0 0,
           face = 0, brightness = Some 0\<rparr> \<and>
   map_option hit
     (cast_ray single_block_world (vec3_create (1/2) (1/2) 5) (vec3_create 0 0 (-1)) 10)
     \<noteq> Some 1"
  by (simp add: cast_ray_above_grid single_block_world_def)

text \<open>
  Claim C3, as the code has it. In every iteration the loop body steps along
  an axis whose \<open>t_max\<close> is the least of the three, and \<open>distance\<close> becomes
  that least value. The X axis is stepped (and face 0 or 1 reported) only when
  \<open>t_max_x\<close> is strictly below both others; the Y axis (face 2 or 3) when
  \<open>t_max_y\<close> is at most \<open>t_max_x\<close> and strictly below \<open>t_max_z\<close>; the Z
  axis (face 4 or 5) in every other case. So on a tie the later axis is
  taken: Y before X, and Z before X and Y.
\<close>

theorem dda_step_axis:
  "(cur_face (dda_step c s) \<in> {0, 1} \<longleftrightarrow> t_max_x s < t_max_y s \<and> t_max_x s < t_max_z s) \<and>
   (cur_face (dda_step c s) \<in> {2, 3} \<longleftrightarrow> t_max_y s \<le> t_max_x s \<and> t_max_y s < t_max_z s) \<and>
   (cur_face (dda_step c s) \<in> {4, 5} \<longleftrightarrow> t_max_z s \<le> t_max_x s \<and> t_max_z s \<le> t_max_y s) \<and>
   cur_distance (dda_step c s) = min (t_max_x s) (min (t_max_y s) (t_max_z s)) \<and>
   map_x (dda_step c s) =
     (if cur_face (dda_step c s) \<in> {0, 1} then map_x s + step_x c else map_x s) \<and>
   map_y (dda_step c s) =
     (if cur_face (dda_step c s) \<in> {2, 3} then map_y s + step_y c else map_y s) \<and>
   map_z (dda_step c s) =
     (if cur_face (dda_step c s) \<in> {4, 5} then map_z s + step_z c else map_z s)"
  by (auto simp: dda_step_def)

theorem dda_step_axis_witness:
  "t_max_y tie_state \<le> t_max_x tie_state \<and> t_max_y tie_state < t_max_z tie_state \<and>
   cur_face (dda_step tie_steps tie_state) \<in> {2, 3} \<and>
   cur_distance (dda_step tie_steps tie_state) = 1 \<and>
   map_x (dda_step tie_steps tie_state) = 0 \<and>
   map_y (dda_step tie_steps tie_state) = 1"
  using dda_step_axis [of tie_steps tie_state]
  by (simp add: tie_state_def tie_steps_def)

text \<open>
  The claim as it is written has the X axis stepped when \<open>t_max_x\<close> and
  \<open>t_max_y\<close> are equal and least. The loop body steps the Y axis there and
  reports the Y face 3.
\<close>

theorem tie_steps_y_not_x:
  "dda_step tie_steps tie_state =
     \<lparr>t_max_x = 1, t_max_y = 2, t_max_z = 2,
      map_x = 0, map_y = 1, map_z = 0, cur_distance = 1, cur_face = 3\<rparr> \<and>
   t_max_x tie_state = t_max_y tie_state \<and> t_max_x tie_state < t_max_z tie_state \<and>
   map_x (dda_step tie_steps tie_state) = map_x tie_state \<and>
   cur_face (dda_step tie_steps tie_state) \<notin> {0, 1}"
  by (simp add: dda_step_def tie_state_def tie_steps_def)


section \<open>The file format\<close>

lemma length_word_bytes: "length (word_bytes v) = 4"
  by (simp add: word_bytes_def)

lemma bytes_word_bytes: "bytes_word (word_bytes v) = v"
  unfolding bytes_word_def word_bytes_def
  apply (rule bit_word_eqI) 
  subgoal for n
    apply (cases "n < 8"; cases "n < 16"; cases "n < 24")
    apply (auto simp: bit_simps not_less)
    done
  done

lemma b0:  "ucast (bytes_word [a,b,c,d]) = a"
    unfolding bytes_word_def by (rule bit_word_eqI) (auto simp: bit_simps dest: bit_imp_le_length)
lemma b1: "ucast (drop_bit 8 (bytes_word [a,b,c,d])) = b"
    unfolding bytes_word_def by (rule bit_word_eqI) (auto simp: bit_simps dest: bit_imp_le_length)
lemma b2: "ucast (drop_bit 16 (bytes_word [a,b,c,d])) = c"
    unfolding bytes_word_def by (rule bit_word_eqI) (auto simp: bit_simps dest: bit_imp_le_length)
lemma b3: "ucast (drop_bit 24 (bytes_word [a,b,c,d])) = d"
    unfolding bytes_word_def by (rule bit_word_eqI) (auto simp: bit_simps dest: bit_imp_le_length)

lemma word_bytes_word:
  "length bs = 4 \<Longrightarrow> word_bytes (bytes_word bs) = bs"
proof -
  assume "length bs = 4"
  then obtain a b c d where bs: "bs = [a, b, c, d]"
    by (auto simp: length_Suc_conv numeral_eq_Suc)
  show ?thesis
    unfolding bs word_bytes_def by (simp add: b0 b1 b2 b3)
qed

lemma sint_int32: "- (2 ^ 31) \<le> i \<Longrightarrow> i < 2 ^ 31 \<Longrightarrow> sint (word_of_int i :: 32 word) = i"
  by (simp add: sint_sbintrunc' signed_take_bit_int_eq_self)

lemma int_bytes_sint: "int_bytes (sint (v :: 32 word)) = word_bytes v"
  by (simp add: int_bytes_def)

lemma fread_int_bytes:
  "- (2 ^ 31) \<le> i \<Longrightarrow> i < 2 ^ 31 \<Longrightarrow> fread_int (int_bytes i @ rest) = Some (i, rest)"
  by (simp add: fread_int_def int_bytes_def length_word_bytes bytes_word_bytes sint_int32)

lemma fread_float_bytes: "fread_float (word_bytes v @ rest) = Some (v, rest)"
  by (simp add: fread_float_def length_word_bytes bytes_word_bytes)

lemma fread_int_Some:
  "fread_int bs = Some (i, rest) \<Longrightarrow> bs = int_bytes i @ rest"
  by (auto simp: fread_int_def int_bytes_sint word_bytes_word split: if_splits)

lemma fread_float_Some:
  "fread_float bs = Some (v, rest) \<Longrightarrow> bs = word_bytes v @ rest"
  by (auto simp: fread_float_def word_bytes_word split: if_splits)

lemma read_rows_concat:
  "length alloc = length rows \<Longrightarrow> \<forall>r \<in> set rows. length r = n \<Longrightarrow>
   read_rows n alloc (concat rows @ rest) = Some (rows, rest)"
proof (induction alloc arbitrary: rows)
  case Nil
  then show ?case by simp
next
  case (Cons a alloc)
  then obtain r rs where rows: "rows = r # rs"
    by (cases rows) auto
  with Cons show ?case by simp
qed

lemma read_rows_Some:
  "read_rows n alloc bs = Some (rows, rest) \<Longrightarrow>
   bs = concat rows @ rest \<and> length rows = length alloc \<and> (\<forall>r \<in> set rows. length r = n)"
proof (induction alloc arbitrary: bs rows)
  case Nil
  then show ?case by simp
next
  case (Cons a alloc)
  from Cons.prems obtain rows' where
    n: "length (take n bs) = n" and
    r: "read_rows n alloc (drop n bs) = Some (rows', rest)" and
    e: "rows = take n bs # rows'"
    by (auto split: if_splits option.splits)
  from Cons.IH [OF r] have "drop n bs = concat rows' @ rest" "length rows' = length alloc"
    "\<forall>r \<in> set rows'. length r = n" by simp_all
  with n e show ?case
    by (metis append_take_drop_id concat.simps(2) append_assoc length_Cons set_ConsD)
qed

lemma read_planes_concat:
  "list_all2 (\<lambda>a p. length a = length p) alloc planes \<Longrightarrow>
   \<forall>p \<in> set planes. \<forall>r \<in> set p. length r = n \<Longrightarrow>
   read_planes n alloc (concat (map concat planes) @ rest) = Some (planes, rest)"
proof (induction alloc planes rule: list_all2_induct)
  case Nil
  then show ?case by simp
next
  case (Cons a alloc p planes)
  then show ?case by (simp add: read_rows_concat)
qed

lemma read_planes_Some:
  "read_planes n alloc bs = Some (planes, rest) \<Longrightarrow>
   bs = concat (map concat planes) @ rest \<and>
   list_all2 (\<lambda>a p. length a = length p) alloc planes \<and>
   (\<forall>p \<in> set planes. \<forall>r \<in> set p. length r = n)"
proof (induction alloc arbitrary: bs planes)
  case Nil
  then show ?case by simp
next
  case (Cons a alloc)
  from Cons.prems obtain p mid ps where
    r: "read_rows n a bs = Some (p, mid)" and
    q: "read_planes n alloc mid = Some (ps, rest)" and
    e: "planes = p # ps"
    by (auto split: option.splits)
  from read_rows_Some [OF r] Cons.IH [OF q] e show ?case
    by auto
qed


lemma world_wf_shape: "world_wf w \<Longrightarrow> grid_shape w"
  by (simp add: world_wf_def)

lemma rows_written:
  "length plane = h \<Longrightarrow> \<forall>r \<in> set plane. length r = n \<Longrightarrow>
   map (\<lambda>y. take n (plane ! y)) [0 ..< h] = plane"
  by (auto intro!: nth_equalityI)

lemma write_blocks_shape:
  assumes "grid_shape w"
  shows "write_blocks w = concat (map concat (blocks w))"
proof -
  have "map (\<lambda>z. concat (map (\<lambda>y. take (nat (World.width w)) (blocks w ! z ! y))
                 [0 ..< nat (World.height w)])) [0 ..< nat (depth w)]
        = map concat (blocks w)"
  proof (rule nth_equalityI)
    show "length (map (\<lambda>z. concat (map (\<lambda>y. take (nat (World.width w)) (blocks w ! z ! y))
                 [0 ..< nat (World.height w)])) [0 ..< nat (depth w)])
          = length (map concat (blocks w))"
      using assms by (simp add: grid_shape_def)
  next
    fix i
    assume "i < length (map (\<lambda>z. concat (map (\<lambda>y. take (nat (World.width w)) (blocks w ! z ! y))
                 [0 ..< nat (World.height w)])) [0 ..< nat (depth w)])"
    then have i: "i < length (blocks w)"
      using assms by (simp add: grid_shape_def)
    then have m: "blocks w ! i \<in> set (blocks w)"
      by simp
    with assms have "length (blocks w ! i) = nat (World.height w)"
      "\<forall>r \<in> set (blocks w ! i). length r = nat (World.width w)"
      by (simp_all add: grid_shape_def)
    then have "map (\<lambda>y. take (nat (World.width w)) (blocks w ! i ! y)) [0 ..< nat (World.height w)]
               = blocks w ! i"
      by (rule rows_written)
    with i assms show "map (\<lambda>z. concat (map (\<lambda>y. take (nat (World.width w)) (blocks w ! z ! y))
                 [0 ..< nat (World.height w)])) [0 ..< nat (depth w)] ! i
          = map concat (blocks w) ! i"
      by (simp add: grid_shape_def)
  qed
  then show ?thesis
    by (simp add: write_blocks_def)
qed

lemma length_concat_uniform:
  "\<forall>r \<in> set xss. length r = n \<Longrightarrow> length (concat xss) = length xss * n"
  by (induction xss) auto

lemma concat_uniform_nth:
  "\<forall>r \<in> set xss. length r = n \<Longrightarrow> i < length xss \<Longrightarrow> j < n \<Longrightarrow>
   concat xss ! (i * n + j) = xss ! i ! j"
proof (induction xss arbitrary: i)
  case Nil
  then show ?case by simp
next
  case (Cons r rs)
  show ?case
  proof (cases i)
    case 0
    with Cons.prems show ?thesis by (simp add: nth_append)
  next
    case (Suc k)
    with Cons.prems have "concat rs ! (k * n + j) = rs ! k ! j"
      by (intro Cons.IH) auto
    moreover have "(r @ concat rs) ! (n + (k * n + j)) = concat rs ! (k * n + j)"
      using Cons.prems by (simp add: nth_append)
    ultimately show ?thesis
      using Suc by (simp add: add.assoc)
  qed
qed

lemma length_plane_bytes:
  assumes "grid_shape w" and "p \<in> set (blocks w)"
  shows "length (concat p) = nat (World.height w) * nat (World.width w)"
proof -
  from assms have "\<forall>r \<in> set p. length r = nat (World.width w)" "length p = nat (World.height w)"
    by (simp_all add: grid_shape_def)
  then show ?thesis
    using length_concat_uniform [of p "nat (World.width w)"] by simp
qed

lemma grid_bytes_nth:
  assumes "grid_shape w" and "world_is_valid_position (Some w) x y z"
  shows "concat (map concat (blocks w)) !
           ((nat z * nat (World.height w) + nat y) * nat (World.width w) + nat x)
         = block_at w x y z"
proof -
  let ?W = "nat (World.width w)" and ?H = "nat (World.height w)"
  from assms(2) have b: "nat x < ?W" "nat y < ?H" "nat z < nat (depth w)"
    by (auto simp: world_is_valid_position_def)
  with assms(1) have zl: "nat z < length (blocks w)"
    by (simp add: grid_shape_def)
  then have pm: "blocks w ! nat z \<in> set (blocks w)"
    by simp
  with assms(1) have pl: "length (blocks w ! nat z) = ?H"
    and rl: "\<forall>r \<in> set (blocks w ! nat z). length r = ?W"
    by (simp_all add: grid_shape_def)
  have u: "\<forall>p \<in> set (map concat (blocks w)). length p = ?H * ?W"
    using assms(1) by (auto simp: length_plane_bytes)
  have "nat y * ?W + nat x < ?H * ?W"
  proof -
    have "nat y * ?W + nat x < nat y * ?W + ?W" using b by simp
    also have "\<dots> = (nat y + 1) * ?W" by simp
    also have "\<dots> \<le> ?H * ?W" using b by (intro mult_le_mono1) linarith
    finally show ?thesis .
  qed
  with u zl have "concat (map concat (blocks w)) ! (nat z * (?H * ?W) + (nat y * ?W + nat x))
          = map concat (blocks w) ! nat z ! (nat y * ?W + nat x)"
    by (intro concat_uniform_nth) simp_all
  also have "\<dots> = concat (blocks w ! nat z) ! (nat y * ?W + nat x)"
    using zl by simp
  also have "\<dots> = blocks w ! nat z ! nat y ! nat x"
    using rl pl b by (intro concat_uniform_nth) simp_all
  finally show ?thesis
    by (simp add: block_at_def algebra_simps)
qed

lemma length_grid_bytes:
  "grid_shape w \<Longrightarrow>
   length (concat (map concat (blocks w))) =
     nat (depth w) * nat (World.height w) * nat (World.width w)"
proof -
  assume s: "grid_shape w"
  then have "\<forall>p \<in> set (map concat (blocks w)). length p = nat (World.height w) * nat (World.width w)"
    by (auto simp: length_plane_bytes)
  then have "length (concat (map concat (blocks w)))
       = length (map concat (blocks w)) * (nat (World.height w) * nat (World.width w))"
    by (rule length_concat_uniform)
  with s show ?thesis
    by (simp add: grid_shape_def)
qed


lemma list_all2_replicate_left:
  "list_all2 P (replicate n a) ys \<Longrightarrow> length ys = n \<and> (\<forall>y \<in> set ys. P a y)"
  by (auto simp: list_all2_conv_all_nth in_set_conv_nth)

lemma list_all2_replicate_leftI:
  "length ys = n \<Longrightarrow> \<forall>y \<in> set ys. P a y \<Longrightarrow> list_all2 P (replicate n a) ys"
  by (auto simp: list_all2_conv_all_nth)

lemma world_create_Some:
  "world_create w h d = Some world \<Longrightarrow>
   World.width world = w \<and> World.height world = h \<and> depth world = d \<and>
   blocks world = replicate (nat d) (replicate (nat h) (replicate (nat w) BLOCK_AIR)) \<and>
   block_types world = default_block_types \<and> num_block_types world = int MAX_BLOCK_TYPES"
  by (auto simp: world_create_def split: if_splits)

lemma world_load_Some:
  assumes "world_load file = Some w"
  shows "\<exists>bs rest. file = Some bs \<and>
           bs = int_bytes (World.width w) @ int_bytes (World.height w) @ int_bytes (depth w)
                @ concat (map concat (blocks w))
                @ word_bytes (time_of_day w) @ word_bytes (sky_brightness w) @ rest \<and>
           grid_shape w \<and>
           World.width w = header_dim 0 bs \<and> World.height w = header_dim 1 bs \<and>
           depth w = header_dim 2 bs"
proof -
  from assms obtain bs wd bs1 ht bs2 dp bs3 world planes bs4 t bs5 sb bs6 where
    f: "file = Some bs" and
    r1: "fread_int bs = Some (wd, bs1)" and
    r2: "fread_int bs1 = Some (ht, bs2)" and
    r3: "fread_int bs2 = Some (dp, bs3)" and
    c: "world_create wd ht dp = Some world" and
    p: "read_planes (nat (World.width world)) (blocks world) bs3 = Some (planes, bs4)" and
    r4: "fread_float bs4 = Some (t, bs5)" and
    r5: "fread_float bs5 = Some (sb, bs6)" and
    w: "w = world\<lparr>blocks := planes, time_of_day := t, sky_brightness := sb\<rparr>"
    by (auto simp: world_load_def split: option.splits)
  note cs = world_create_Some [OF c]
  from read_planes_Some [OF p] cs have
    b3: "bs3 = concat (map concat planes) @ bs4" and
    a2: "list_all2 (\<lambda>a p. length a = length p)
           (replicate (nat dp) (replicate (nat ht) (replicate (nat wd) BLOCK_AIR))) planes" and
    rl: "\<forall>p \<in> set planes. \<forall>r \<in> set p. length r = nat wd"
    by simp_all
  from list_all2_replicate_left [OF a2] have
    pl: "length planes = nat dp" "\<forall>p \<in> set planes. length p = nat ht"
    by simp_all
  have shape: "grid_shape w"
    using pl rl cs by (simp add: grid_shape_def w)
  have e: "bs = int_bytes wd @ int_bytes ht @ int_bytes dp @ concat (map concat planes)
             @ word_bytes t @ word_bytes sb @ bs6"
    using fread_int_Some [OF r1] fread_int_Some [OF r2] fread_int_Some [OF r3] b3
      fread_float_Some [OF r4] fread_float_Some [OF r5] by simp
  have h: "wd = header_dim 0 bs" "ht = header_dim 1 bs" "dp = header_dim 2 bs"
    using r1 r2 r3 by (auto simp: fread_int_def header_dim_def split: if_splits)
  have wv: "World.width w = wd" "World.height w = ht" "depth w = dp" "blocks w = planes"
    "time_of_day w = t" "sky_brightness w = sb"
    using cs by (simp_all add: w)
  show ?thesis
    unfolding wv using f e shape h by blast
qed

lemma length_int_bytes: "length (int_bytes i) = 4"
  by (simp add: int_bytes_def length_word_bytes)

lemma world_save_shape:
  "grid_shape w \<Longrightarrow>
   world_save (Some w) =
     Some (int_bytes (World.width w) @ int_bytes (World.height w) @ int_bytes (depth w)
           @ concat (map concat (blocks w))
           @ word_bytes (time_of_day w) @ word_bytes (sky_brightness w))"
  by (simp add: world_save_def write_blocks_shape)

text \<open>
  Claim C7. \<open>world_load\<close> returns a world only when every read of the
  format succeeded. A file shorter than the 12 bytes of the dimensions plus
  depth \<times> height \<times> width block bytes plus the 8 bytes of the two floats,
  with the dimensions as its header gives them (so also a file too short to
  hold the dimensions), is answered with \<open>NULL\<close>. And a world that is
  returned has the full shape and is exactly what the file holds: saving it
  again writes the bytes of the file that were read.
\<close>

theorem load_all_or_nothing:
  "(length bs < 12 + nat (header_dim 2 bs) * nat (header_dim 1 bs) * nat (header_dim 0 bs) + 8
      \<longrightarrow> world_load (Some bs) = None) \<and>
   (world_load file = Some w \<longrightarrow>
      (\<exists>s rest. world_save (Some w) = Some s \<and> file = Some (s @ rest) \<and> grid_shape w \<and>
         length s = 12 + nat (depth w) * nat (World.height w) * nat (World.width w) + 8))"
proof (intro conjI impI)
  assume l: "world_load file = Some w"
  from world_load_Some [OF this] obtain fb rest where
    f: "file = Some fb" and
    e: "fb = int_bytes (World.width w) @ int_bytes (World.height w) @ int_bytes (depth w)
                @ concat (map concat (blocks w))
                @ word_bytes (time_of_day w) @ word_bytes (sky_brightness w) @ rest" and
    g: "grid_shape w"
    by blast
  show "\<exists>s rest. world_save (Some w) = Some s \<and> file = Some (s @ rest) \<and> grid_shape w \<and>
         length s = 12 + nat (depth w) * nat (World.height w) * nat (World.width w) + 8"
    using f e g
    by (simp add: world_save_shape length_int_bytes length_word_bytes length_grid_bytes)
next
  assume s: "length bs < 12 + nat (header_dim 2 bs) * nat (header_dim 1 bs) * nat (header_dim 0 bs) + 8"
  show "world_load (Some bs) = None"
  proof (cases "world_load (Some bs)")
    case None
    then show ?thesis .
  next
    case (Some w')
    from world_load_Some [OF this] obtain rest where
      e: "bs = int_bytes (World.width w') @ int_bytes (World.height w') @ int_bytes (depth w')
                @ concat (map concat (blocks w'))
                @ word_bytes (time_of_day w') @ word_bytes (sky_brightness w') @ rest" and
      g: "grid_shape w'" and
      h: "World.width w' = header_dim 0 bs" "World.height w' = header_dim 1 bs"
         "depth w' = header_dim 2 bs"
      by blast
    have "length bs = 12 + nat (depth w') * nat (World.height w') * nat (World.width w') + 8
            + length rest"
      by (subst e) (simp add: length_int_bytes length_word_bytes length_grid_bytes [OF g])
    with s h show ?thesis by simp
  qed
qed

text \<open>
  Claim C4. For a world of the shape above, \<open>world_save\<close> writes a file
  from which \<open>world_load\<close> returns a world with the same dimensions, the
  same block grid and the same \<open>time_of_day\<close> and \<open>sky_brightness\<close>. The
  file has the three dimensions in its first 12 bytes, then one byte for every
  cell, the cell \<open>(x, y, z)\<close> at offset \<open>(z \<sqdot> height + y) \<sqdot> width + x\<close>, and
  the two floats in its last 8 bytes.
\<close>

theorem save_then_load:
  assumes "world_wf w"
  shows "\<exists>bs w'. world_save (Some w) = Some bs \<and> world_load (Some bs) = Some w' \<and>
           World.width w' = World.width w \<and> World.height w' = World.height w \<and>
           depth w' = depth w \<and> blocks w' = blocks w \<and>
           time_of_day w' = time_of_day w \<and> sky_brightness w' = sky_brightness w \<and>
           length bs = 12 + nat (depth w) * nat (World.height w) * nat (World.width w) + 8 \<and>
           take 12 bs = int_bytes (World.width w) @ int_bytes (World.height w)
                          @ int_bytes (depth w) \<and>
           (\<forall>x y z. world_is_valid_position (Some w) x y z \<longrightarrow>
              bs ! (12 + (nat z * nat (World.height w) + nat y) * nat (World.width w) + nat x)
                = block_at w x y z) \<and>
           drop (length bs - 8) bs = word_bytes (time_of_day w) @ word_bytes (sky_brightness w)"
proof -
  let ?W = "World.width w" and ?H = "World.height w" and ?D = "depth w"
  let ?grid = "concat (map concat (blocks w))"
  let ?bs = "int_bytes ?W @ int_bytes ?H @ int_bytes ?D @ ?grid
             @ word_bytes (time_of_day w) @ word_bytes (sky_brightness w)"
  let ?w' = "w\<lparr>block_types := default_block_types, num_block_types := int MAX_BLOCK_TYPES\<rparr>"
  from assms have g: "grid_shape w"
    by (rule world_wf_shape)
  from assms have r: "0 \<le> ?W" "?W < 2 ^ 31" "0 \<le> ?H" "?H < 2 ^ 31" "0 \<le> ?D" "?D < 2 ^ 31"
    by (simp_all add: world_wf_def)
  have sv: "world_save (Some w) = Some ?bs"
    using g by (rule world_save_shape)
  have cr: "world_create ?W ?H ?D =
      Some \<lparr>World.width = ?W, World.height = ?H, depth = ?D,
         blocks = replicate (nat ?D) (replicate (nat ?H) (replicate (nat ?W) BLOCK_AIR)),
         block_types = default_block_types,
         num_block_types = int MAX_BLOCK_TYPES,
         time_of_day = 0x3F000000,
         sky_brightness = 0x3F800000\<rparr>"
    using r by (simp add: world_create_def)
  have a2: "list_all2 (\<lambda>a p. length a = length p)
              (replicate (nat ?D) (replicate (nat ?H) (replicate (nat ?W) BLOCK_AIR))) (blocks w)"
    using g by (intro list_all2_replicate_leftI) (simp_all add: grid_shape_def)
  have rl: "\<forall>p \<in> set (blocks w). \<forall>r \<in> set p. length r = nat ?W"
    using g by (simp add: grid_shape_def)
  have rp: "read_planes (nat ?W)
              (replicate (nat ?D) (replicate (nat ?H) (replicate (nat ?W) BLOCK_AIR)))
              (?grid @ word_bytes (time_of_day w) @ word_bytes (sky_brightness w))
            = Some (blocks w, word_bytes (time_of_day w) @ word_bytes (sky_brightness w))"
    using a2 rl by (rule read_planes_concat)
  have i1: "fread_int ?bs = Some (?W, int_bytes ?H @ int_bytes ?D @ ?grid
             @ word_bytes (time_of_day w) @ word_bytes (sky_brightness w))"
    using r by (intro fread_int_bytes) simp_all
  have i2: "fread_int (int_bytes ?H @ int_bytes ?D @ ?grid
             @ word_bytes (time_of_day w) @ word_bytes (sky_brightness w))
            = Some (?H, int_bytes ?D @ ?grid
             @ word_bytes (time_of_day w) @ word_bytes (sky_brightness w))"
    using r by (intro fread_int_bytes) simp_all
  have i3: "fread_int (int_bytes ?D @ ?grid
             @ word_bytes (time_of_day w) @ word_bytes (sky_brightness w))
            = Some (?D, ?grid @ word_bytes (time_of_day w) @ word_bytes (sky_brightness w))"
    using r by (intro fread_int_bytes) simp_all
  have f2: "fread_float (word_bytes (sky_brightness w)) = Some (sky_brightness w, [])"
    using fread_float_bytes [of "sky_brightness w" "[]"] by simp
  have ld: "world_load (Some ?bs) = Some ?w'"
    by (simp add: world_load_def i1 i2 i3 cr rp fread_float_bytes f2)
  have len: "length ?bs = 12 + nat ?D * nat ?H * nat ?W + 8"
    by (simp add: length_int_bytes length_word_bytes length_grid_bytes [OF g])
  have hd: "take 12 ?bs = int_bytes ?W @ int_bytes ?H @ int_bytes ?D"
    by (simp add: length_int_bytes)
  have cells: "?bs ! (12 + (nat z * nat ?H + nat y) * nat ?W + nat x) = block_at w x y z"
    if v: "world_is_valid_position (Some w) x y z" for x y z
  proof -
    let ?i = "(nat z * nat ?H + nat y) * nat ?W + nat x"
    have "?i < length ?grid"
    proof -
      from v have b: "nat x < nat ?W" "nat y < nat ?H" "nat z < nat ?D"
        by (auto simp: world_is_valid_position_def)
      have "?i < (nat z * nat ?H + nat y) * nat ?W + nat ?W"
        using b by simp
      also have "\<dots> = (nat z * nat ?H + nat y + 1) * nat ?W"
        by simp
      also have "\<dots> \<le> (nat z * nat ?H + nat ?H) * nat ?W"
        using b by (intro mult_le_mono1) linarith
      also have "\<dots> = (nat z + 1) * nat ?H * nat ?W"
        by simp
      also have "\<dots> \<le> nat ?D * nat ?H * nat ?W"
        using b by (intro mult_le_mono1) linarith
      finally show ?thesis
        by (simp add: length_grid_bytes [OF g])
    qed
    then have "?bs ! (12 + ?i) = ?grid ! ?i"
      by (simp add: nth_append length_int_bytes)
    with grid_bytes_nth [OF g v] show ?thesis
      by (simp add: add.assoc)
  qed
  have tl: "drop (length ?bs - 8) ?bs = word_bytes (time_of_day w) @ word_bytes (sky_brightness w)"
    by (simp add: length_int_bytes length_word_bytes)
  show ?thesis
    apply (rule exI [of _ ?bs], rule exI [of _ ?w'])
    apply (intro conjI sv ld allI impI cells)
    using len hd tl apply simp_all
    done
qed



lemma world_wf_single_block: "world_wf single_block_world"
  by (simp add: world_wf_def grid_shape_def single_block_world_def)

lemma save_single_block: "world_save (Some single_block_world) = Some single_block_file"
  by (simp add: world_save_def write_blocks_def single_block_world_def single_block_file_def
      int_bytes_def word_bytes_def upt_rec BLOCK_STONE_def BLOCK_AIR_def)

lemma rep2: "replicate 2 x = [x, x]"
  by (simp add: numeral_2_eq_2)

lemma load_single_block:
  "world_load (Some single_block_file) = Some single_block_world"
  apply (simp add: world_load_def single_block_file_def fread_int_def fread_float_def bytes_word_def
      world_create_def rep2 BLOCK_AIR_def MAX_BLOCK_TYPES_def)
  apply (simp add: single_block_world_def BLOCK_STONE_def BLOCK_AIR_def)
  done


theorem load_all_or_nothing_witness:
  "length (butlast single_block_file) <
     12 + nat (header_dim 2 (butlast single_block_file))
          * nat (header_dim 1 (butlast single_block_file))
          * nat (header_dim 0 (butlast single_block_file)) + 8 \<and>
   world_load (Some (butlast single_block_file)) = None \<and>
   world_load (Some single_block_file) = Some single_block_world \<and>
   (\<exists>s rest. world_save (Some single_block_world) = Some s \<and>
      Some single_block_file = Some (s @ rest) \<and> grid_shape single_block_world \<and>
      length s = 12 + nat (depth single_block_world) * nat (World.height single_block_world)
                   * nat (World.width single_block_world) + 8)"
proof -
  have h: "length (butlast single_block_file) <
     12 + nat (header_dim 2 (butlast single_block_file))
          * nat (header_dim 1 (butlast single_block_file))
          * nat (header_dim 0 (butlast single_block_file)) + 8"
    by (simp add: single_block_file_def header_dim_def bytes_word_def)
  note t = load_all_or_nothing [of "butlast single_block_file" "Some single_block_file"
      single_block_world]
  from t h have 1: "world_load (Some (butlast single_block_file)) = None"
    by blast
  from t load_single_block have 2: "\<exists>s rest. world_save (Some single_block_world) = Some s \<and>
      Some single_block_file = Some (s @ rest) \<and> grid_shape single_block_world \<and>
      length s = 12 + nat (depth single_block_world) * nat (World.height single_block_world)
                   * nat (World.width single_block_world) + 8"
    by blast
  from h 1 load_single_block 2 show ?thesis
    by (intro conjI)
qed


theorem save_then_load_witness:
  "world_wf single_block_world \<and>
   (\<exists>bs w'. world_save (Some single_block_world) = Some bs \<and> world_load (Some bs) = Some w' \<and>
           World.width w' = World.width single_block_world \<and>
           World.height w' = World.height single_block_world \<and>
           depth w' = depth single_block_world \<and> blocks w' = blocks single_block_world \<and>
           time_of_day w' = time_of_day single_block_world \<and>
           sky_brightness w' = sky_brightness single_block_world \<and>
           length bs = 12 + nat (depth single_block_world) * nat (World.height single_block_world)
                         * nat (World.width single_block_world) + 8 \<and>
           take 12 bs = int_bytes (World.width single_block_world)
                          @ int_bytes (World.height single_block_world)
                          @ int_bytes (depth single_block_world) \<and>
           (\<forall>x y z. world_is_valid_position (Some single_block_world) x y z \<longrightarrow>
              bs ! (12 + (nat z * nat (World.height single_block_world) + nat y)
                           * nat (World.width single_block_world) + nat x)
                = block_at single_block_world x y z) \<and>
           drop (length bs - 8) bs = word_bytes (time_of_day single_block_world)
                                       @ word_bytes (sky_brightness single_block_world))"
  using world_wf_single_block save_then_load [OF world_wf_single_block] by (rule conjI)


section \<open>Brightness\<close>

lemma float_times_one: "float_times b 1 = b"
  by (cases b) simp_all

lemma float_times_twice:
  "0 < c \<Longrightarrow> 0 < d \<Longrightarrow> float_times (float_times b c) d = float_times b (c * d)"
  by (cases b) (simp_all add: mult.assoc)

lemma brightness_loop_count:
  "0 \<le> x \<Longrightarrow> x < World.width w \<Longrightarrow> 0 \<le> y \<Longrightarrow> y < World.height w \<Longrightarrow> 0 \<le> cz \<Longrightarrow>
   brightness_loop w x y cz b =
     float_times b
       (0.7 ^ length (filter (\<lambda>cz. block_at w x y cz \<noteq> BLOCK_AIR \<and> block_at w x y cz \<noteq> BLOCK_WATER)
                        [cz .. depth w - 1]))"
proof (induction w x y cz b rule: brightness_loop.induct)
  case (1 w x y check_z brightness)
  let ?occ = "\<lambda>cz. block_at w x y cz \<noteq> BLOCK_AIR \<and> block_at w x y cz \<noteq> BLOCK_WATER"
  let ?next = "if world_is_valid_position (Some w) x y check_z then
             (let block_above = block_at w x y check_z in
              if block_above \<noteq> BLOCK_AIR \<and> block_above \<noteq> BLOCK_WATER
              then float_times brightness 0.7 else brightness)
           else brightness"
  show ?case
  proof (cases "check_z < depth w")
    case True
    then have u: "[check_z .. depth w - 1] = check_z # [check_z + 1 .. depth w - 1]"
      by (simp add: upto_rec1)
    have v: "world_is_valid_position (Some w) x y check_z"
      using True "1.prems" by (simp add: world_is_valid_position_def)
    have n: "?next = (if ?occ check_z then float_times brightness 0.7 else brightness)"
      using v by (simp add: Let_def)
    from "1.prems" have "0 \<le> check_z + 1" by simp
    note ih = "1.IH" [OF True "1.prems"(1-4) this]
    have "brightness_loop w x y check_z brightness = brightness_loop w x y (check_z + 1) ?next"
      using True by (subst brightness_loop.simps) simp
    also have "\<dots> = float_times ?next (0.7 ^ length (filter ?occ [check_z + 1 .. depth w - 1]))"
      by (rule ih)
    also have "\<dots> = float_times brightness (0.7 ^ length (filter ?occ [check_z .. depth w - 1]))"
      unfolding n u by (simp add: float_times_twice)
    finally show ?thesis .
  next
    case False
    then show ?thesis
      by (subst brightness_loop.simps) (simp add: float_times_one)
  qed
qed

lemma clamp_range: "lo \<le> hi \<Longrightarrow> lo \<le> clamp v lo hi \<and> clamp v lo hi \<le> hi"
  by (simp add: clamp_def)

lemma clamp_float_range:
  assumes "lo \<le> hi" and "v \<noteq> NaN"
  shows "\<exists>r. clamp_float v lo hi = Some r \<and> lo \<le> r \<and> r \<le> hi"
  using assms clamp_range [of lo hi] by (cases v) simp_all

lemma float_times_not_NaN: "0 < c \<Longrightarrow> v \<noteq> NaN \<Longrightarrow> float_times v c \<noteq> NaN"
  by (cases v) simp_all

lemma brightness_unfolded:
  assumes "world_is_valid_position (Some w) x y z"
  shows "world_get_brightness (Some w) x y z =
           clamp_float (float_times (f32_val (sky_brightness w))
                          (0.7 ^ occluders_above w x y z)) 0.2 1.0"
proof -
  from assms have "0 \<le> x" "x < World.width w" "0 \<le> y" "y < World.height w" "0 \<le> z + 1"
    by (simp_all add: world_is_valid_position_def)
  then have "brightness_loop w x y (z + 1) (f32_val (sky_brightness w)) =
      float_times (f32_val (sky_brightness w)) (0.7 ^ occluders_above w x y z)"
    unfolding occluders_above_def by (rule brightness_loop_count)
  with assms show ?thesis
    by (simp add: world_get_brightness_def)
qed

text \<open>
  Claim C5. For every coordinate inside the grid, whatever the grid holds, and
  for every sky brightness that is not a NaN (a finite number or an infinity),
  \<open>world_get_brightness\<close> returns the sky brightness multiplied by 0.7 once
  for each cell strictly above the coordinate, up to the ceiling, whose block
  is neither air nor water, clamped to \<open>[0.2, 1.0]\<close>. So a number is
  returned and it lies in \<open>[0.2, 1.0]\<close>; for a finite sky brightness \<open>s\<close>
  and \<open>k\<close> such cells it is \<open>s \<sqdot> 0.7\<^sup>k\<close> clamped. The sky brightness is
  read from the 32 bits that the world stores, so every pattern of a
  \<open>float\<close> is covered but the NaNs.
\<close>

theorem brightness_is_clamped_occlusion:
  assumes "world_is_valid_position (Some w) x y z"
    and "f32_val (sky_brightness w) \<noteq> NaN"
  shows "world_get_brightness (Some w) x y z =
           clamp_float (float_times (f32_val (sky_brightness w))
                          (0.7 ^ occluders_above w x y z)) 0.2 1.0 \<and>
         (\<exists>r. world_get_brightness (Some w) x y z = Some r \<and> 0.2 \<le> r \<and> r \<le> 1.0) \<and>
         (\<forall>s. f32_val (sky_brightness w) = Finite s \<longrightarrow>
            world_get_brightness (Some w) x y z =
              Some (clamp (s * 0.7 ^ occluders_above w x y z) 0.2 1.0))"
proof -
  let ?k = "occluders_above w x y z"
  note e = brightness_unfolded [OF assms(1)]
  have p: "(0::real) < 0.7 ^ ?k" by simp
  have "float_times (f32_val (sky_brightness w)) (0.7 ^ ?k) \<noteq> NaN"
    using p assms(2) by (rule float_times_not_NaN)
  then have r: "\<exists>r. world_get_brightness (Some w) x y z = Some r \<and> 0.2 \<le> r \<and> r \<le> 1.0"
    unfolding e using clamp_float_range [of "0.2" "1.0"] by simp
  have f: "\<forall>s. f32_val (sky_brightness w) = Finite s \<longrightarrow>
            world_get_brightness (Some w) x y z = Some (clamp (s * 0.7 ^ ?k) 0.2 1.0)"
    unfolding e by simp
  from e r f show ?thesis by blast
qed

theorem brightness_is_clamped_occlusion_witness:
  "world_is_valid_position (Some column_world) 0 0 0 \<and>
   f32_val (sky_brightness column_world) \<noteq> NaN \<and>
   occluders_above column_world 0 0 0 = 1 \<and>
   f32_val (sky_brightness column_world) = Finite 1 \<and>
   world_get_brightness (Some column_world) 0 0 0 = Some 0.7"
proof -
  have v: "world_is_valid_position (Some column_world) 0 0 0"
    by (simp add: world_is_valid_position_def column_world_def)
  have o: "occluders_above column_world 0 0 0 = 1"
    by (simp add: occluders_above_def column_world_def block_at_def upto_rec1
        BLOCK_AIR_def BLOCK_WATER_def BLOCK_STONE_def)
  have s: "f32_val (sky_brightness column_world) = Finite 1"
    by (simp add: column_world_def f32_val_one)
  then have n: "f32_val (sky_brightness column_world) \<noteq> NaN" by simp
  from brightness_is_clamped_occlusion [OF v n] have
    "world_get_brightness (Some column_world) 0 0 0 = Some 0.7"
    by (simp add: o s clamp_def)
  with v n o s show ?thesis by simp
qed

text \<open>
  The patterns \<open>0x7F800000\<close>, \<open>0xFF800000\<close> and \<open>0x7FC00000\<close> are plus
  infinity, minus infinity and a NaN. Under an infinite sky brightness the
  value returned is the bound on the side of the infinity. Under a sky
  brightness that is a NaN the loop keeps the NaN and hands it to \<open>clamp\<close>:
  the value returned is the one that \<open>clamp\<close> gives a NaN, which its absent
  body decides.
\<close>

lemma f32_val_special:
  "f32_val 0x7F800000 = PlusInfinity \<and> f32_val 0xFF800000 = MinusInfinity \<and>
   f32_val 0x7FC00000 = NaN"
  by (simp add: f32_val_def)

lemma brightness_under_infinite_sky:
  assumes "world_is_valid_position (Some w) x y z"
  shows "(f32_val (sky_brightness w) = PlusInfinity \<longrightarrow>
            world_get_brightness (Some w) x y z = Some 1.0) \<and>
         (f32_val (sky_brightness w) = MinusInfinity \<longrightarrow>
            world_get_brightness (Some w) x y z = Some 0.2)"
proof -
  have "(0::real) < 0.7 ^ occluders_above w x y z" by simp
  then show ?thesis
    unfolding brightness_unfolded [OF assms] by simp
qed

lemma brightness_of_NaN:
  assumes "world_is_valid_position (Some w) x y z"
    and "f32_val (sky_brightness w) = NaN"
  shows "brightness_loop w x y (z + 1) (f32_val (sky_brightness w)) = NaN \<and>
         world_get_brightness (Some w) x y z = clamp_float NaN 0.2 1.0"
proof -
  from assms(1) have "0 \<le> x" "x < World.width w" "0 \<le> y" "y < World.height w" "0 \<le> z + 1"
    by (simp_all add: world_is_valid_position_def)
  then have "brightness_loop w x y (z + 1) NaN =
      float_times NaN (0.7 ^ occluders_above w x y z)"
    unfolding occluders_above_def by (rule brightness_loop_count)
  with assms show ?thesis
    by (simp add: world_get_brightness_def)
qed


section \<open>Breaking and placing\<close>

lemma valid_in_range:
  assumes "grid_shape w" and "world_is_valid_position (Some w) x y z"
  shows "nat z < length (blocks w)" and "nat y < length (blocks w ! nat z)"
    and "nat x < length (blocks w ! nat z ! nat y)"
proof -
  from assms(2) have b: "0 \<le> x" "x < World.width w" "0 \<le> y" "y < World.height w"
    "0 \<le> z" "z < depth w"
    by (simp_all add: world_is_valid_position_def)
  with assms(1) show z: "nat z < length (blocks w)"
    by (simp add: grid_shape_def)
  then have "blocks w ! nat z \<in> set (blocks w)"
    by simp
  with assms(1) have pl: "length (blocks w ! nat z) = nat (World.height w)"
    and rl: "\<forall>r \<in> set (blocks w ! nat z). length r = nat (World.width w)"
    by (simp_all add: grid_shape_def)
  from pl b show y: "nat y < length (blocks w ! nat z)"
    by simp
  then have "blocks w ! nat z ! nat y \<in> set (blocks w ! nat z)"
    by simp
  with rl b show "nat x < length (blocks w ! nat z ! nat y)"
    by simp
qed

lemma valid_set_block:
  "world_is_valid_position (Some (world_set_block w x y z v)) x' y' z' =
   world_is_valid_position (Some w) x' y' z'"
  by (simp add: world_set_block_def world_is_valid_position_def)

lemma get_set_block:
  assumes "grid_shape w" and "world_is_valid_position (Some w) x y z"
  shows "world_get_block (Some (world_set_block w x y z v)) x y z = v"
  using assms valid_in_range [OF assms]
  by (simp add: world_get_block_def valid_set_block block_at_def)
     (simp add: world_set_block_def)

lemma set_block_restore:
  assumes "grid_shape w" and "world_is_valid_position (Some w) x y z"
  shows "world_set_block (world_set_block w x y z a) x y z (world_get_block (Some w) x y z) = w"
proof -
  note r = valid_in_range [OF assms]
  have v: "world_is_valid_position (Some (world_set_block w x y z a)) x y z"
    using assms(2) by (simp add: valid_set_block)
  have b: "blocks (world_set_block w x y z a) =
      (blocks w)[nat z := (blocks w ! nat z)[nat y := (blocks w ! nat z ! nat y)[nat x := a]]]"
    using assms(2) by (simp add: world_set_block_def)
  have "blocks (world_set_block (world_set_block w x y z a) x y z (block_at w x y z)) = blocks w"
    using v r by (simp add: world_set_block_def [of "world_set_block w x y z a"] b block_at_def)
  moreover have "world_set_block (world_set_block w x y z a) x y z (block_at w x y z)
      = w\<lparr>blocks := blocks (world_set_block (world_set_block w x y z a) x y z (block_at w x y z))\<rparr>"
    using v assms(2) by (simp add: world_set_block_def)
  ultimately show ?thesis
    using assms(2) by (simp add: world_get_block_def)
qed

lemma count_not_full: "(c :: uint8_t) \<noteq> 255 \<Longrightarrow> 0 < c + 1"
proof -
  assume c: "c \<noteq> 255"
  have "c + 1 \<noteq> 0"
  proof
    assume "c + 1 = 0"
    then have "c = - 1"
      by (simp add: eq_neg_iff_add_eq_0)
    with c show False
      by simp
  qed
  then show ?thesis
    by (simp add: word_neq_0_conv)
qed

lemma break_on_hit:
  assumes "cast_ray w (player_get_camera_position p) (player_get_view_direction p) 5 = Some h"
    and "hit h \<noteq> 0"
    and "break_target h = (x, y, z)"
    and "b = world_get_block (Some w) x y z"
    and "unat b < length (inventory p)"
  shows "player_break_block p w =
           Inr (p\<lparr>inventory := (inventory p)[unat b := inventory p ! unat b + 1]\<rparr>,
                world_set_block w x y z BLOCK_AIR)"
  using assms by (simp add: player_break_block_def Let_def)

lemma place_on_hit:
  assumes "cast_ray w (player_get_camera_position p) (player_get_view_direction p) 5 = Some h"
    and "hit h \<noteq> 0"
    and "place_target h = (x, y, z)"
    and "world_is_valid_position (Some w) x y z"
    and "unat b < length (inventory p)"
  shows "player_place_block p w b =
           (if inventory p ! unat b > 0
            then Inr (p\<lparr>inventory := (inventory p)[unat b := inventory p ! unat b - 1]\<rparr>,
                      world_set_block w x y z b)
            else Inr (p, w))"
  using assms by (simp add: player_place_block_def Let_def)

lemma same_view:
  "player_get_camera_position (p\<lparr>inventory := i\<rparr>) = player_get_camera_position p"
  "player_get_view_direction (p\<lparr>inventory := i\<rparr>) = player_get_view_direction p"
  by (simp_all add: player_get_camera_position_def player_get_view_direction_def)

text \<open>
  Claim C2, as the code has it. Let the ray of the break action hit, let the
  cell that holds the hit point (the cell the break action addresses) be
  inside the grid and hold a block \<open>b\<close> other than air, let \<open>b\<close> be an
  index of the inventory and its count be below 255. Then the break action
  adds 1 to the count of \<open>b\<close> and sets that cell to air. If the ray of the
  place action that follows hits a block whose neighbour cell across the struck
  face is the emptied cell, then placing the type \<open>b\<close> gives back the player
  and the grid as they were before the break: the count of \<open>b\<close> is
  unchanged and the cell holds \<open>b\<close> again.
\<close>

theorem break_then_place_restores:
  assumes "grid_shape w"
    and "cast_ray w (player_get_camera_position p) (player_get_view_direction p) 5 = Some h1"
    and "hit h1 \<noteq> 0"
    and "break_target h1 = (x, y, z)"
    and "world_is_valid_position (Some w) x y z"
    and "b = world_get_block (Some w) x y z" and "b \<noteq> BLOCK_AIR"
    and "unat b < length (inventory p)" and "inventory p ! unat b \<noteq> 255"
    and "cast_ray (world_set_block w x y z BLOCK_AIR) (player_get_camera_position p)
           (player_get_view_direction p) 5 = Some h2"
    and "hit h2 \<noteq> 0"
    and "place_target h2 = (x, y, z)"
  shows "\<exists>p1 w1. player_break_block p w = Inr (p1, w1) \<and>
           inventory p1 ! unat b = inventory p ! unat b + 1 \<and>
           world_get_block (Some w1) x y z = BLOCK_AIR \<and>
           player_place_block p1 w1 b = Inr (p, w)"
proof -
  let ?p1 = "p\<lparr>inventory := (inventory p)[unat b := inventory p ! unat b + 1]\<rparr>"
  let ?w1 = "world_set_block w x y z BLOCK_AIR"
  have br: "player_break_block p w = Inr (?p1, ?w1)"
    using assms(2-4,6,8) by (rule break_on_hit)
  have cnt: "inventory ?p1 ! unat b = inventory p ! unat b + 1"
    using assms(8) by simp
  have air: "world_get_block (Some ?w1) x y z = BLOCK_AIR"
    using assms(1,5) by (rule get_set_block)
  have pos: "0 < inventory p ! unat b + 1"
    using assms(9) by (rule count_not_full)
  have v1: "world_is_valid_position (Some ?w1) x y z"
    using assms(5) by (simp add: valid_set_block)
  have "player_place_block ?p1 ?w1 b =
      (if inventory ?p1 ! unat b > 0
       then Inr (?p1\<lparr>inventory := (inventory ?p1)[unat b := inventory ?p1 ! unat b - 1]\<rparr>,
                 world_set_block ?w1 x y z b)
       else Inr (?p1, ?w1))"
    using assms(10-12) v1 assms(8)
    by (intro place_on_hit [where h = h2]) (simp_all add: same_view)
  also have "\<dots> = Inr (?p1\<lparr>inventory := (inventory ?p1)[unat b := inventory ?p1 ! unat b - 1]\<rparr>,
                 world_set_block ?w1 x y z b)"
    using pos cnt by simp
  also have "?p1\<lparr>inventory := (inventory ?p1)[unat b := inventory ?p1 ! unat b - 1]\<rparr> = p"
    using assms(8) by simp
  also have "world_set_block ?w1 x y z b = w"
    unfolding assms(6) using assms(1,5) by (rule set_block_restore)
  finally show ?thesis
    using br cnt air by blast
qed

lemma normalize_x: "vec3_normalize (vec3_create 1 0 0) = vec3_create 1 0 0"
  by (simp add: vec3_normalize_def vec3_length_def vec3_create_def vec3_div_def)

lemma setup_along_x:
  "cast_ray w (vec3_create (1/2) (1/2) (1/2)) (vec3_create 1 0 0) m =
   dda_loop w (vec3_create (1/2) (1/2) (1/2)) (vec3_create 1 0 0) m
     \<lparr>t_delta_x = 1, t_delta_y = HUGE_T, t_delta_z = HUGE_T,
      step_x = 1, step_y = 0, step_z = 0\<rparr>
     \<lparr>hit = 0, block_type = 0, distance = m,
      position = vec3_create 0 0 0, normal = vec3_create 0 0 0,
      face = 0, brightness = Some 0\<rparr>
     \<lparr>t_max_x = 1/2, t_max_y = HUGE_T, t_max_z = HUGE_T,
      map_x = 0, map_y = 0, map_z = 0, cur_distance = 0, cur_face = 0\<rparr>"
  by (simp add: cast_ray_def normalize_x)
     (simp add: vec3_create_def axis_setup_def Let_def)

lemma ray_along_x_second_cell:
  assumes "World.width w = 4" and "World.height w = 1" and "depth w = 1"
    and "world_get_block (Some w) 1 0 0 = BLOCK_AIR"
    and "world_get_block (Some w) 2 0 0 \<noteq> BLOCK_AIR"
  shows "\<exists>h. cast_ray w (vec3_create (1/2) (1/2) (1/2)) (vec3_create 1 0 0) 5 = Some h \<and>
           hit h = 1 \<and> RayHit.position h = vec3_create 2 (1/2) (1/2) \<and>
           normal h = vec3_create (-1) 0 0 \<and> face h = 1 \<and> distance h = 3/2"
  using assms
  apply (simp add: setup_along_x)
  apply (subst dda_loop.simps, simp add: dda_step_def HUGE_T_def)
  apply (subst dda_loop.simps, simp add: dda_step_def HUGE_T_def)
  apply (simp add: hit_result_def vec3_add_def vec3_mul_def vec3_create_def face_normals_def Let_def)
  done

lemma ray_along_x_third_cell:
  assumes "World.width w = 4" and "World.height w = 1" and "depth w = 1"
    and "world_get_block (Some w) 1 0 0 = BLOCK_AIR"
    and "world_get_block (Some w) 2 0 0 = BLOCK_AIR"
    and "world_get_block (Some w) 3 0 0 \<noteq> BLOCK_AIR"
  shows "\<exists>h. cast_ray w (vec3_create (1/2) (1/2) (1/2)) (vec3_create 1 0 0) 5 = Some h \<and>
           hit h = 1 \<and> RayHit.position h = vec3_create 3 (1/2) (1/2) \<and>
           normal h = vec3_create (-1) 0 0 \<and> face h = 1 \<and> distance h = 5/2"
  using assms
  apply (simp add: setup_along_x)
  apply (subst dda_loop.simps, simp add: dda_step_def HUGE_T_def)
  apply (subst dda_loop.simps, simp add: dda_step_def HUGE_T_def)
  apply (subst dda_loop.simps, simp add: dda_step_def HUGE_T_def)
  apply (simp add: hit_result_def vec3_add_def vec3_mul_def vec3_create_def face_normals_def Let_def)
  done

lemma looks_along_x:
  "Player.position p = vec3_create (1/2) (1/2) (1/2) \<Longrightarrow> rotation p = vec2_create 0 0 \<Longrightarrow>
   player_get_camera_position p = vec3_create (1/2) (1/2) (1/2) \<and>
   player_get_view_direction p = vec3_create 1 0 0"
  by (simp add: player_get_camera_position_def player_get_view_direction_def
      vec3_from_angles_def vec2_create_def)

lemma corridor_player_pose:
  "Player.position corridor_player = vec3_create (1/2) (1/2) (1/2)"
  "rotation corridor_player = vec2_create 0 0"
  "Player.position full_player = vec3_create (1/2) (1/2) (1/2)"
  "rotation full_player = vec2_create 0 0"
  by (simp_all add: corridor_player_def full_player_def player_create_def)

lemma corridor_inventory:
  "inventory corridor_player = [0, 64, 64, 64, 16, 0, 0, 0, 16, 0, 0, 0, 0, 0, 0, 0]"
  "inventory full_player = [0, 64, 64, 255, 16, 0, 0, 0, 16, 0, 0, 0, 0, 0, 0, 0]"
  by code_simp+

lemma corridor_cells:
  "world_get_block (Some corridor_world) 1 0 0 = BLOCK_AIR"
  "world_get_block (Some corridor_world) 2 0 0 = BLOCK_STONE"
  "world_get_block (Some corridor_world) 3 0 0 = BLOCK_STONE"
  "World.width corridor_world = 4" "World.height corridor_world = 1" "depth corridor_world = 1"
  "grid_shape corridor_world"
  "world_is_valid_position (Some corridor_world) 2 0 0"
  by (simp_all add: corridor_world_def world_get_block_def world_is_valid_position_def
      block_at_def grid_shape_def)


lemma emptied_cells:
  "world_set_block corridor_world 2 0 0 BLOCK_AIR = emptied_corridor"
  "world_get_block (Some emptied_corridor) 1 0 0 = BLOCK_AIR"
  "world_get_block (Some emptied_corridor) 2 0 0 = BLOCK_AIR"
  "world_get_block (Some emptied_corridor) 3 0 0 = BLOCK_STONE"
  "World.width emptied_corridor = 4" "World.height emptied_corridor = 1"
  "depth emptied_corridor = 1"
  "world_is_valid_position (Some emptied_corridor) 2 0 0"
  by (simp_all add: emptied_corridor_def corridor_world_def world_set_block_def
      world_get_block_def world_is_valid_position_def block_at_def)

lemma stone_not_air: "BLOCK_STONE \<noteq> BLOCK_AIR" "unat BLOCK_STONE = 3"
  by (simp_all add: BLOCK_STONE_def BLOCK_AIR_def)

lemma corridor_first_ray:
  assumes "Player.position p = vec3_create (1/2) (1/2) (1/2)" and "rotation p = vec2_create 0 0"
  shows "\<exists>h. cast_ray corridor_world (player_get_camera_position p)
                (player_get_view_direction p) 5 = Some h \<and>
             hit h \<noteq> 0 \<and> break_target h = (2, 0, 0) \<and> place_target h = (1, 0, 0)"
proof -
  from ray_along_x_second_cell [of corridor_world] obtain h where
    "cast_ray corridor_world (vec3_create (1/2) (1/2) (1/2)) (vec3_create 1 0 0) 5 = Some h"
    "hit h = 1" "RayHit.position h = vec3_create 2 (1/2) (1/2)"
    "normal h = vec3_create (-1) 0 0"
    by (auto simp: corridor_cells stone_not_air)
  then show ?thesis
    using looks_along_x [OF assms]
    by (simp add: break_target_def place_target_def vec3_create_def)
qed

lemma corridor_second_ray:
  assumes "Player.position p = vec3_create (1/2) (1/2) (1/2)" and "rotation p = vec2_create 0 0"
  shows "\<exists>h. cast_ray emptied_corridor (player_get_camera_position p)
                (player_get_view_direction p) 5 = Some h \<and>
             hit h \<noteq> 0 \<and> place_target h = (2, 0, 0)"
proof -
  from ray_along_x_third_cell [of emptied_corridor] obtain h where
    "cast_ray emptied_corridor (vec3_create (1/2) (1/2) (1/2)) (vec3_create 1 0 0) 5 = Some h"
    "hit h = 1" "RayHit.position h = vec3_create 3 (1/2) (1/2)"
    "normal h = vec3_create (-1) 0 0"
    by (auto simp: emptied_cells stone_not_air)
  then show ?thesis
    using looks_along_x [OF assms]
    by (simp add: place_target_def vec3_create_def)
qed

theorem break_then_place_restores_witness:
  "grid_shape corridor_world \<and> world_is_valid_position (Some corridor_world) 2 0 0 \<and>
   BLOCK_STONE = world_get_block (Some corridor_world) 2 0 0 \<and> BLOCK_STONE \<noteq> BLOCK_AIR \<and>
   unat BLOCK_STONE < length (inventory corridor_player) \<and>
   inventory corridor_player ! unat BLOCK_STONE \<noteq> 255 \<and>
   (\<exists>h1. cast_ray corridor_world (player_get_camera_position corridor_player)
            (player_get_view_direction corridor_player) 5 = Some h1 \<and>
          hit h1 \<noteq> 0 \<and> break_target h1 = (2, 0, 0)) \<and>
   (\<exists>h2. cast_ray (world_set_block corridor_world 2 0 0 BLOCK_AIR)
            (player_get_camera_position corridor_player)
            (player_get_view_direction corridor_player) 5 = Some h2 \<and>
          hit h2 \<noteq> 0 \<and> place_target h2 = (2, 0, 0)) \<and>
   (\<exists>p1 w1. player_break_block corridor_player corridor_world = Inr (p1, w1) \<and>
      inventory p1 ! unat BLOCK_STONE = inventory corridor_player ! unat BLOCK_STONE + 1 \<and>
      world_get_block (Some w1) 2 0 0 = BLOCK_AIR \<and>
      player_place_block p1 w1 BLOCK_STONE = Inr (corridor_player, corridor_world))"
proof -
  from corridor_first_ray [OF corridor_player_pose(1,2)] obtain h1 where
    h1: "cast_ray corridor_world (player_get_camera_position corridor_player)
            (player_get_view_direction corridor_player) 5 = Some h1"
      "hit h1 \<noteq> 0" "break_target h1 = (2, 0, 0)"
    by blast
  from corridor_second_ray [OF corridor_player_pose(1,2)] obtain h2 where
    h2: "cast_ray (world_set_block corridor_world 2 0 0 BLOCK_AIR)
            (player_get_camera_position corridor_player)
            (player_get_view_direction corridor_player) 5 = Some h2"
      "hit h2 \<noteq> 0" "place_target h2 = (2, 0, 0)"
    by (auto simp: emptied_cells)
  have s: "BLOCK_STONE = world_get_block (Some corridor_world) 2 0 0"
    by (simp add: corridor_cells)
  have i: "unat BLOCK_STONE < length (inventory corridor_player)"
    "inventory corridor_player ! unat BLOCK_STONE \<noteq> 255"
    by (simp_all add: corridor_inventory stone_not_air)
  note t = break_then_place_restores [OF corridor_cells(7) h1 corridor_cells(8) s
      stone_not_air(1) i h2]
  show ?thesis
    using corridor_cells(7,8) s stone_not_air(1) i h1 h2 t by blast
qed

lemma drained_inventory:
  "inventory drained_player = [0, 64, 64, 0, 16, 0, 0, 0, 16, 0, 0, 0, 0, 0, 0, 0]"
  by code_simp

lemma drained_is_broken_full:
  "full_player\<lparr>inventory := (inventory full_player)
      [unat BLOCK_STONE := inventory full_player ! unat BLOCK_STONE + 1]\<rparr> = drained_player"
  by (simp add: corridor_inventory stone_not_air, simp add: full_player_def drained_player_def
      corridor_inventory stone_not_air)

lemma drained_pose:
  "Player.position drained_player = vec3_create (1/2) (1/2) (1/2)"
  "rotation drained_player = vec2_create 0 0"
  by (simp_all add: drained_player_def corridor_player_pose)

text \<open>
  The claim as it is written is stated for every grid and pose in which the ray
  hits. In the corridor a player with 255 stones breaks the first stone: the
  count wraps to 0. The place ray then hits the second stone, its target is the
  emptied cell, and nothing is placed, because the count is not above 0. The
  count went from 255 to 0 and the cell stays air.
\<close>

theorem full_count_break_then_place:
  "inventory full_player ! unat BLOCK_STONE = 255 \<and>
   world_get_block (Some corridor_world) 2 0 0 = BLOCK_STONE \<and>
   player_break_block full_player corridor_world = Inr (drained_player, emptied_corridor) \<and>
   map_option place_target
     (cast_ray emptied_corridor (player_get_camera_position drained_player)
        (player_get_view_direction drained_player) 5) = Some (2, 0, 0) \<and>
   player_place_block drained_player emptied_corridor BLOCK_STONE
     = Inr (drained_player, emptied_corridor) \<and>
   inventory drained_player ! unat BLOCK_STONE = 0 \<and>
   world_get_block (Some emptied_corridor) 2 0 0 = BLOCK_AIR \<and>
   world_is_solid (Some emptied_corridor) 2 0 0 = 0"
proof -
  from corridor_first_ray [OF corridor_player_pose(3,4)] obtain h1 where
    h1: "cast_ray corridor_world (player_get_camera_position full_player)
            (player_get_view_direction full_player) 5 = Some h1"
      "hit h1 \<noteq> 0" "break_target h1 = (2, 0, 0)"
    by blast
  have "player_break_block full_player corridor_world =
      Inr (full_player\<lparr>inventory := (inventory full_player)
             [unat BLOCK_STONE := inventory full_player ! unat BLOCK_STONE + 1]\<rparr>,
           world_set_block corridor_world 2 0 0 BLOCK_AIR)"
    using h1 by (rule break_on_hit) (simp_all add: corridor_cells corridor_inventory stone_not_air)
  then have br: "player_break_block full_player corridor_world
      = Inr (drained_player, emptied_corridor)"
    by (simp only: drained_is_broken_full emptied_cells)
  from corridor_second_ray [OF drained_pose] obtain h2 where
    h2: "cast_ray emptied_corridor (player_get_camera_position drained_player)
            (player_get_view_direction drained_player) 5 = Some h2"
      "hit h2 \<noteq> 0" "place_target h2 = (2, 0, 0)"
    by blast
  have "player_place_block drained_player emptied_corridor BLOCK_STONE =
      (if inventory drained_player ! unat BLOCK_STONE > 0
       then Inr (drained_player\<lparr>inventory := (inventory drained_player)
                   [unat BLOCK_STONE := inventory drained_player ! unat BLOCK_STONE - 1]\<rparr>,
                 world_set_block emptied_corridor 2 0 0 BLOCK_STONE)
       else Inr (drained_player, emptied_corridor))"
    using h2 by (rule place_on_hit) (simp_all add: emptied_cells drained_inventory stone_not_air)
  then have pl: "player_place_block drained_player emptied_corridor BLOCK_STONE
      = Inr (drained_player, emptied_corridor)"
    by (simp add: drained_inventory stone_not_air)
  have sol: "world_is_solid (Some emptied_corridor) 2 0 0 = 0"
    by (simp add: world_is_solid_def emptied_corridor_def corridor_world_def
        world_is_valid_position_def block_at_def BLOCK_AIR_def default_block_types_def
        mk_block_type_def)
  show ?thesis
    using br pl sol h2
    by (simp add: corridor_inventory drained_inventory stone_not_air corridor_cells emptied_cells)
qed

lemma increments_add:
  "i < length cnts \<Longrightarrow>
   ((\<lambda>v. v[i := v ! i + 1]) ^^ k) cnts = cnts[i := cnts ! i + (of_nat k :: uint8_t)]"
proof (induction k)
  case 0
  then show ?case by simp
next
  case (Suc k)
  then show ?case by (simp add: ac_simps)
qed

lemma of_nat_256: "(of_nat 256 :: uint8_t) = 0"
  by simp

lemma give_count: "uint (c + word_of_int n :: uint8_t) = (uint c + n) mod 256"
  by (simp add: uint_word_ariths uint_word_of_int mod_add_right_eq)

text \<open>
  Claim C10. The counts of the inventory are 8-bit values. The break action
  that hits adds 1 to one count modulo 256, so that a count of 255 becomes 0;
  \<open>player_give_block\<close> adds its amount modulo 256; the place action that
  places takes 1 from one count, modulo 256; and 256 increments of the same
  count give the inventory back as it was.
\<close>

theorem inventory_counts_modulo_256:
  "(cast_ray w (player_get_camera_position p) (player_get_view_direction p) 5 = Some h \<and>
    hit h \<noteq> 0 \<and> break_target h = (x, y, z) \<and> b = world_get_block (Some w) x y z \<and>
    unat b < length (inventory p) \<longrightarrow>
      (\<exists>p' w'. player_break_block p w = Inr (p', w') \<and>
         inventory p' = (inventory p)[unat b := inventory p ! unat b + 1] \<and>
         unat (inventory p' ! unat b) = (unat (inventory p ! unat b) + 1) mod 256 \<and>
         (inventory p ! unat b = 255 \<longrightarrow> inventory p' ! unat b = 0))) \<and>
   (unat t < MAX_BLOCK_TYPES \<and> unat t < length (inventory q) \<longrightarrow>
      uint (inventory (player_give_block q t n) ! unat t)
        = (uint (inventory q ! unat t) + n) mod 256) \<and>
   (cast_ray u (player_get_camera_position r) (player_get_view_direction r) 5 = Some g \<and>
    hit g \<noteq> 0 \<and> place_target g = (x', y', z') \<and> world_is_valid_position (Some u) x' y' z' \<and>
    unat s < length (inventory r) \<and> inventory r ! unat s > 0 \<longrightarrow>
      (\<exists>r' u'. player_place_block r u s = Inr (r', u') \<and>
         inventory r' = (inventory r)[unat s := inventory r ! unat s - 1] \<and>
         uint (inventory r' ! unat s) = (uint (inventory r ! unat s) - 1) mod 256)) \<and>
   (i < length cnts \<longrightarrow> ((\<lambda>v. v[i := v ! i + 1]) ^^ 256) cnts = (cnts :: uint8_t list))"
proof (intro conjI impI)
  assume a: "cast_ray w (player_get_camera_position p) (player_get_view_direction p) 5 = Some h \<and>
    hit h \<noteq> 0 \<and> break_target h = (x, y, z) \<and> b = world_get_block (Some w) x y z \<and>
    unat b < length (inventory p)"
  then have a': "cast_ray w (player_get_camera_position p) (player_get_view_direction p) 5 = Some h"
    "hit h \<noteq> 0" "break_target h = (x, y, z)" "b = world_get_block (Some w) x y z"
    "unat b < length (inventory p)"
    by blast+
  then have "player_break_block p w =
           Inr (p\<lparr>inventory := (inventory p)[unat b := inventory p ! unat b + 1]\<rparr>,
                world_set_block w x y z BLOCK_AIR)"
    by (rule break_on_hit)
  moreover have "unat (inventory p ! unat b + 1) = (unat (inventory p ! unat b) + 1) mod 256"
    by (simp add: unat_word_ariths)
  ultimately show "\<exists>p' w'. player_break_block p w = Inr (p', w') \<and>
         inventory p' = (inventory p)[unat b := inventory p ! unat b + 1] \<and>
         unat (inventory p' ! unat b) = (unat (inventory p ! unat b) + 1) mod 256 \<and>
         (inventory p ! unat b = 255 \<longrightarrow> inventory p' ! unat b = 0)"
    using a'(5) by simp
next
  assume "unat t < MAX_BLOCK_TYPES \<and> unat t < length (inventory q)"
  then show "uint (inventory (player_give_block q t n) ! unat t)
        = (uint (inventory q ! unat t) + n) mod 256"
    by (simp add: player_give_block_def give_count)
next
  assume a: "cast_ray u (player_get_camera_position r) (player_get_view_direction r) 5 = Some g \<and>
    hit g \<noteq> 0 \<and> place_target g = (x', y', z') \<and> world_is_valid_position (Some u) x' y' z' \<and>
    unat s < length (inventory r) \<and> inventory r ! unat s > 0"
  then have a': "cast_ray u (player_get_camera_position r) (player_get_view_direction r) 5 = Some g"
    "hit g \<noteq> 0" "place_target g = (x', y', z')" "world_is_valid_position (Some u) x' y' z'"
    "unat s < length (inventory r)"
    by blast+
  then have "player_place_block r u s =
           (if inventory r ! unat s > 0
            then Inr (r\<lparr>inventory := (inventory r)[unat s := inventory r ! unat s - 1]\<rparr>,
                      world_set_block u x' y' z' s)
            else Inr (r, u))"
    by (rule place_on_hit)
  moreover have "uint (inventory r ! unat s - 1) = (uint (inventory r ! unat s) - 1) mod 256"
    by (simp add: uint_word_ariths)
  ultimately show "\<exists>r' u'. player_place_block r u s = Inr (r', u') \<and>
         inventory r' = (inventory r)[unat s := inventory r ! unat s - 1] \<and>
         uint (inventory r' ! unat s) = (uint (inventory r ! unat s) - 1) mod 256"
    using a a'(5) by simp
next
  assume "i < length cnts"
  then have "((\<lambda>v. v[i := v ! i + 1]) ^^ 256) cnts = cnts[i := cnts ! i + (of_nat 256 :: uint8_t)]"
    by (rule increments_add)
  then show "((\<lambda>v. v[i := v ! i + 1]) ^^ 256) cnts = cnts"
    by (simp only: of_nat_256 add_0_right list_update_id)
qed

lemma slot_as_byte:
  "1 \<le> k \<Longrightarrow> k \<le> 9 \<Longrightarrow> uint (word_of_int k :: uint8_t) = k \<and> unat (word_of_int k :: uint8_t) = nat k"
  by (simp add: uint_word_of_int unat_eq_nat_uint)

text \<open>
  Claim C9. \<open>player_select_slot\<close> stores a slot from 1 to 9 and leaves the
  player unchanged for any other number. \<open>player_get_selected_block\<close>
  returns the slot number itself as the block id. The place action of the
  game loop is \<open>player_place_block\<close> with that id, and where it places, the
  target cell then holds the block whose id is the slot number, and the count
  at that index of the inventory has gone down by 1.
\<close>

theorem slot_is_block_id:
  "(1 \<le> slot \<and> slot \<le> 9 \<longrightarrow> selected_slot (player_select_slot p slot) = slot) \<and>
   (\<not> (1 \<le> slot' \<and> slot' \<le> 9) \<longrightarrow> player_select_slot p' slot' = p') \<and>
   (1 \<le> selected_slot q \<and> selected_slot q \<le> 9 \<longrightarrow>
      uint (player_get_selected_block q) = selected_slot q) \<and>
   game_process_input_place r u = player_place_block r u (player_get_selected_block r) \<and>
   (grid_shape u \<and> 1 \<le> selected_slot r \<and> selected_slot r \<le> 9 \<and>
    length (inventory r) = MAX_BLOCK_TYPES \<and>
    cast_ray u (player_get_camera_position r) (player_get_view_direction r) 5 = Some g \<and>
    hit g \<noteq> 0 \<and> place_target g = (x, y, z) \<and> world_is_valid_position (Some u) x y z \<and>
    inventory r ! nat (selected_slot r) > 0 \<longrightarrow>
      (\<exists>r' u'. game_process_input_place r u = Inr (r', u') \<and>
         uint (world_get_block (Some u') x y z) = selected_slot r \<and>
         inventory r' = (inventory r)[nat (selected_slot r) :=
                           inventory r ! nat (selected_slot r) - 1]))"
proof (intro conjI impI)
  assume "1 \<le> slot \<and> slot \<le> 9"
  then show "selected_slot (player_select_slot p slot) = slot"
    by (simp add: player_select_slot_def)
next
  assume "\<not> (1 \<le> slot' \<and> slot' \<le> 9)"
  then show "player_select_slot p' slot' = p'"
    by (auto simp: player_select_slot_def)
next
  assume "1 \<le> selected_slot q \<and> selected_slot q \<le> 9"
  then show "uint (player_get_selected_block q) = selected_slot q"
    by (simp add: player_get_selected_block_def slot_as_byte)
next
  show "game_process_input_place r u = player_place_block r u (player_get_selected_block r)"
    by (simp add: game_process_input_place_def player_get_selected_block_def)
next
  let ?t = "word_of_int (selected_slot r) :: uint8_t"
  assume a: "grid_shape u \<and> 1 \<le> selected_slot r \<and> selected_slot r \<le> 9 \<and>
    length (inventory r) = MAX_BLOCK_TYPES \<and>
    cast_ray u (player_get_camera_position r) (player_get_view_direction r) 5 = Some g \<and>
    hit g \<noteq> 0 \<and> place_target g = (x, y, z) \<and> world_is_valid_position (Some u) x y z \<and>
    inventory r ! nat (selected_slot r) > 0"
  then have s: "uint ?t = selected_slot r" "unat ?t = nat (selected_slot r)"
    by (simp_all add: slot_as_byte)
  from a have "nat (selected_slot r) < 16" "length (inventory r) = 16"
    by (auto simp: MAX_BLOCK_TYPES_def)
  then have i: "unat ?t < length (inventory r)"
    by (simp add: s)
  from a have h: "cast_ray u (player_get_camera_position r) (player_get_view_direction r) 5 = Some g"
    "hit g \<noteq> 0" "place_target g = (x, y, z)" "world_is_valid_position (Some u) x y z"
    by blast+
  from h i have "player_place_block r u ?t =
           (if inventory r ! unat ?t > 0
            then Inr (r\<lparr>inventory := (inventory r)[unat ?t := inventory r ! unat ?t - 1]\<rparr>,
                      world_set_block u x y z ?t)
            else Inr (r, u))"
    by (rule place_on_hit)
  with a have "game_process_input_place r u =
      Inr (r\<lparr>inventory := (inventory r)[nat (selected_slot r) :=
                 inventory r ! nat (selected_slot r) - 1]\<rparr>,
           world_set_block u x y z ?t)"
    by (simp add: game_process_input_place_def s)
  moreover from a have "world_get_block (Some (world_set_block u x y z ?t)) x y z = ?t"
    by (intro get_set_block) simp_all
  ultimately show "\<exists>r' u'. game_process_input_place r u = Inr (r', u') \<and>
         uint (world_get_block (Some u') x y z) = selected_slot r \<and>
         inventory r' = (inventory r)[nat (selected_slot r) :=
                           inventory r ! nat (selected_slot r) - 1]"
    using s by simp
qed

lemma dirt_slot: "selected_slot corridor_player = 1"
  by (simp add: corridor_player_def player_create_def)

lemma corridor_inventory_length:
  "length (inventory corridor_player) = MAX_BLOCK_TYPES"
  "length (inventory full_player) = MAX_BLOCK_TYPES"
  by (simp_all add: corridor_inventory MAX_BLOCK_TYPES_def)

theorem slot_is_block_id_witness:
  "selected_slot (player_select_slot corridor_player 3) = 3 \<and>
   player_select_slot corridor_player 12 = corridor_player \<and>
   selected_slot corridor_player = 1 \<and>
   uint (player_get_selected_block corridor_player) = selected_slot corridor_player \<and>
   grid_shape corridor_world \<and> length (inventory corridor_player) = MAX_BLOCK_TYPES \<and>
   world_is_valid_position (Some corridor_world) 1 0 0 \<and>
   inventory corridor_player ! nat (selected_slot corridor_player) > 0 \<and>
   (\<exists>g. cast_ray corridor_world (player_get_camera_position corridor_player)
           (player_get_view_direction corridor_player) 5 = Some g \<and>
        hit g \<noteq> 0 \<and> place_target g = (1, 0, 0)) \<and>
   (\<exists>r' u'. game_process_input_place corridor_player corridor_world = Inr (r', u') \<and>
      uint (world_get_block (Some u') 1 0 0) = selected_slot corridor_player \<and>
      inventory r' = (inventory corridor_player)[nat (selected_slot corridor_player) :=
         inventory corridor_player ! nat (selected_slot corridor_player) - 1])"
proof -
  from corridor_first_ray [OF corridor_player_pose(1,2)] obtain g where
    g: "cast_ray corridor_world (player_get_camera_position corridor_player)
            (player_get_view_direction corridor_player) 5 = Some g"
      "hit g \<noteq> 0" "place_target g = (1, 0, 0)"
    by blast
  have v: "world_is_valid_position (Some corridor_world) 1 0 0"
    by (simp add: corridor_world_def world_is_valid_position_def)
  have c: "inventory corridor_player ! nat (selected_slot corridor_player) > 0"
    by (simp add: dirt_slot corridor_inventory)
  have r: "1 \<le> selected_slot corridor_player \<and> selected_slot corridor_player \<le> 9"
    by (simp add: dirt_slot)
  note t = slot_is_block_id [of 3 corridor_player 12 corridor_player corridor_player
      corridor_player corridor_world g 1 0 0]
  from t have 1: "selected_slot (player_select_slot corridor_player 3) = 3"
    by simp
  from t have 2: "player_select_slot corridor_player 12 = corridor_player"
    by simp
  from t r have 3: "uint (player_get_selected_block corridor_player)
      = selected_slot corridor_player"
    by blast
  from t r g v c corridor_cells(7) corridor_inventory_length(1)
  have 4: "\<exists>r' u'. game_process_input_place corridor_player corridor_world = Inr (r', u') \<and>
      uint (world_get_block (Some u') 1 0 0) = selected_slot corridor_player \<and>
      inventory r' = (inventory corridor_player)[nat (selected_slot corridor_player) :=
         inventory corridor_player ! nat (selected_slot corridor_player) - 1]"
    by blast
  from 1 2 3 4 g v c corridor_cells(7) corridor_inventory_length(1) dirt_slot show ?thesis
    by blast
qed

theorem inventory_counts_modulo_256_witness:
  "unat BLOCK_STONE < length (inventory full_player) \<and>
   unat BLOCK_STONE < MAX_BLOCK_TYPES \<and>
   inventory full_player ! unat BLOCK_STONE = 255 \<and>
   (\<exists>h. cast_ray corridor_world (player_get_camera_position full_player)
           (player_get_view_direction full_player) 5 = Some h \<and>
        hit h \<noteq> 0 \<and> break_target h = (2, 0, 0)) \<and>
   BLOCK_STONE = world_get_block (Some corridor_world) 2 0 0 \<and>
   (\<exists>p' w'. player_break_block full_player corridor_world = Inr (p', w') \<and>
      unat (inventory p' ! unat BLOCK_STONE)
        = (unat (inventory full_player ! unat BLOCK_STONE) + 1) mod 256 \<and>
      inventory p' ! unat BLOCK_STONE = 0) \<and>
   uint (inventory (player_give_block full_player BLOCK_STONE 1) ! unat BLOCK_STONE)
     = (uint (inventory full_player ! unat BLOCK_STONE) + 1) mod 256 \<and>
   (\<exists>g. cast_ray corridor_world (player_get_camera_position corridor_player)
           (player_get_view_direction corridor_player) 5 = Some g \<and>
        hit g \<noteq> 0 \<and> place_target g = (1, 0, 0)) \<and>
   world_is_valid_position (Some corridor_world) 1 0 0 \<and>
   unat BLOCK_DIRT < length (inventory corridor_player) \<and>
   inventory corridor_player ! unat BLOCK_DIRT > 0 \<and>
   (\<exists>r' u'. player_place_block corridor_player corridor_world BLOCK_DIRT = Inr (r', u') \<and>
      uint (inventory r' ! unat BLOCK_DIRT)
        = (uint (inventory corridor_player ! unat BLOCK_DIRT) - 1) mod 256) \<and>
   0 < length [255 :: uint8_t] \<and>
   ((\<lambda>v. v[0 := v ! 0 + 1]) ^^ 256) [255 :: uint8_t] = [255]"
proof -
  from corridor_first_ray [OF corridor_player_pose(3,4)] obtain h where
    h: "cast_ray corridor_world (player_get_camera_position full_player)
            (player_get_view_direction full_player) 5 = Some h"
      "hit h \<noteq> 0" "break_target h = (2, 0, 0)"
    by blast
  from corridor_first_ray [OF corridor_player_pose(1,2)] obtain g where
    g: "cast_ray corridor_world (player_get_camera_position corridor_player)
            (player_get_view_direction corridor_player) 5 = Some g"
      "hit g \<noteq> 0" "place_target g = (1, 0, 0)"
    by blast
  have v: "world_is_valid_position (Some corridor_world) 1 0 0"
    by (simp add: corridor_world_def world_is_valid_position_def)
  have i: "unat BLOCK_STONE < length (inventory full_player)"
    "unat BLOCK_STONE < MAX_BLOCK_TYPES"
    "inventory full_player ! unat BLOCK_STONE = 255"
    "unat BLOCK_DIRT < length (inventory corridor_player)"
    "inventory corridor_player ! unat BLOCK_DIRT > 0"
    by (simp_all add: corridor_inventory BLOCK_STONE_def BLOCK_DIRT_def MAX_BLOCK_TYPES_def)
  have s: "BLOCK_STONE = world_get_block (Some corridor_world) 2 0 0"
    by (simp add: corridor_cells)
  have n: "0 < length [255 :: uint8_t]"
    by simp
  note t = inventory_counts_modulo_256 [of corridor_world full_player h 2 0 0 BLOCK_STONE
      BLOCK_STONE full_player 1 corridor_world corridor_player g 1 0 0 BLOCK_DIRT 0 "[255]"]
  from t h s i(1,3) have 1: "\<exists>p' w'. player_break_block full_player corridor_world = Inr (p', w') \<and>
      unat (inventory p' ! unat BLOCK_STONE)
        = (unat (inventory full_player ! unat BLOCK_STONE) + 1) mod 256 \<and>
      inventory p' ! unat BLOCK_STONE = 0"
    by blast
  from t i(1,2) have 2:
    "uint (inventory (player_give_block full_player BLOCK_STONE 1) ! unat BLOCK_STONE)
     = (uint (inventory full_player ! unat BLOCK_STONE) + 1) mod 256"
    by blast
  from t g v i(4,5) have 3:
    "\<exists>r' u'. player_place_block corridor_player corridor_world BLOCK_DIRT = Inr (r', u') \<and>
      uint (inventory r' ! unat BLOCK_DIRT)
        = (uint (inventory corridor_player ! unat BLOCK_DIRT) - 1) mod 256"
    by blast
  from t n have 4: "((\<lambda>v. v[0 := v ! 0 + 1]) ^^ 256) [255 :: uint8_t] = [255]"
    by blast
  from 1 2 3 4 h g v i s n show ?thesis
    by blast
qed


lemma normalize_back: "vec3_normalize (vec3_create (-1) 0 0) = vec3_create (-1) 0 0"
  by (simp add: vec3_normalize_def vec3_length_def vec3_create_def vec3_div_def)

lemma back_view:
  "player_get_camera_position back_player = vec3_create (7/2) (1/2) (1/2)"
  "player_get_view_direction back_player = vec3_create (-1) 0 0"
  by (simp_all add: back_player_def player_get_camera_position_def
      player_get_view_direction_def vec3_from_angles_def vec2_create_def)

lemma back_ray:
  "\<exists>h. cast_ray back_world (vec3_create (7/2) (1/2) (1/2)) (vec3_create (-1) 0 0) 5 = Some h \<and>
     hit h = 1 \<and> block_type h = 3 \<and> face h = 0 \<and>
     RayHit.position h = vec3_create 2 (1/2) (1/2) \<and> break_target h = (2, 0, 0)"
  apply (simp add: cast_ray_def normalize_back)
  apply (simp add: vec3_create_def axis_setup_def Let_def)
  apply (subst dda_loop.simps, simp add: dda_step_def HUGE_T_def back_world_def
      world_get_block_def world_is_valid_position_def block_at_def BLOCK_AIR_def BLOCK_STONE_def)
  apply (subst dda_loop.simps, simp add: dda_step_def HUGE_T_def back_world_def
      world_get_block_def world_is_valid_position_def block_at_def BLOCK_AIR_def BLOCK_STONE_def)
  apply (simp add: hit_result_def vec3_add_def vec3_mul_def vec3_create_def face_normals_def
      Let_def break_target_def)
  done

lemma back_inventory:
  "inventory back_player = [0, 64, 64, 64, 16, 0, 0, 0, 16, 0, 0, 0, 0, 0, 0, 0]"
proof -
  have "inventory back_player = inventory corridor_player"
    by (simp add: back_player_def corridor_player_def)
  then show ?thesis
    by (simp only: corridor_inventory)
qed

text \<open>
  A ray that steps in the negative direction of X hits the stone in cell 1 on
  its face at \<open>x = 2\<close>. The cell of that hit point is cell 2, so the break
  action counts a block of type 0 and leaves the stone where it is.
\<close>

lemma break_leaves_the_hit_block:
  "player_break_block back_player back_world =
     Inr (back_player\<lparr>inventory := [1, 64, 64, 64, 16, 0, 0, 0, 16, 0, 0, 0, 0, 0, 0, 0]\<rparr>,
          back_world) \<and>
   world_get_block (Some back_world) 1 0 0 = BLOCK_STONE"
proof -
  from back_ray obtain h where
    h: "cast_ray back_world (player_get_camera_position back_player)
          (player_get_view_direction back_player) 5 = Some h"
      "hit h \<noteq> 0" "break_target h = (2, 0, 0)"
    by (auto simp: back_view)
  have a: "world_get_block (Some back_world) 2 0 0 = 0"
    "world_get_block (Some back_world) 1 0 0 = BLOCK_STONE"
    "world_set_block back_world 2 0 0 BLOCK_AIR = back_world"
    by (simp_all add: back_world_def world_get_block_def world_set_block_def
        world_is_valid_position_def block_at_def BLOCK_AIR_def)
  show ?thesis
    using h a by (simp add: player_break_block_def back_inventory)
qed

section \<open>Turning\<close>

lemma exact_simps:
  "to_float exact x = x" "to_double exact x = x" "M_PI exact = pi"
  by (simp_all add: exact_def)

lemma wrap_down_exact:
  "\<exists>y'. wrap_down exact y = Some y' \<and> y' < 2 * pi \<and> (0 \<le> y \<longrightarrow> 0 \<le> y')"
proof (induction "nat \<lfloor>y / (2 * pi)\<rfloor>" arbitrary: y rule: less_induct)
  case less
  show ?case
  proof (cases "y \<ge> 2 * pi")
    case False
    then show ?thesis
      by (subst wrap_down.simps) (simp add: exact_simps)
  next
    case True
    have "(y - 2 * pi) / (2 * pi) = y / (2 * pi) - 1"
      by (simp add: field_simps)
    then have f: "\<lfloor>(y - 2 * pi) / (2 * pi)\<rfloor> = \<lfloor>y / (2 * pi)\<rfloor> - 1"
      by simp
    have "1 \<le> y / (2 * pi)"
      using True by (simp add: field_simps)
    then have "1 \<le> \<lfloor>y / (2 * pi)\<rfloor>"
      by (simp add: le_floor_iff)
    with f have "nat \<lfloor>(y - 2 * pi) / (2 * pi)\<rfloor> < nat \<lfloor>y / (2 * pi)\<rfloor>"
      by simp
    from less [OF this] obtain y' where
      "wrap_down exact (y - 2 * pi) = Some y'" "y' < 2 * pi" "0 \<le> y - 2 * pi \<longrightarrow> 0 \<le> y'"
      by blast
    with True show ?thesis
      by (subst wrap_down.simps) (simp add: exact_simps)
  qed
qed

lemma wrap_up_exact:
  "\<exists>y'. wrap_up exact y = Some y' \<and> 0 \<le> y' \<and> (y < 2 * pi \<longrightarrow> y' < 2 * pi)"
proof (induction "nat \<lceil>- y / (2 * pi)\<rceil>" arbitrary: y rule: less_induct)
  case less
  show ?case
  proof (cases "y < 0")
    case False
    then show ?thesis
      by (subst wrap_up.simps) (simp add: exact_simps)
  next
    case True
    have e: "- (y + 2 * pi) / (2 * pi) = - y / (2 * pi) - 1"
      by (simp add: field_simps)
    have f: "\<lceil>- (y + 2 * pi) / (2 * pi)\<rceil> = \<lceil>- y / (2 * pi)\<rceil> - 1"
      by (simp only: e ceiling_diff_one)
    have "0 < - y / (2 * pi)"
      using True by (simp add: field_simps)
    then have "0 < \<lceil>- y / (2 * pi)\<rceil>"
      by (simp only: less_ceiling_iff of_int_0)
    then have "nat (\<lceil>- y / (2 * pi)\<rceil> - 1) < nat \<lceil>- y / (2 * pi)\<rceil>"
      by linarith
    then have "nat \<lceil>- (y + 2 * pi) / (2 * pi)\<rceil> < nat \<lceil>- y / (2 * pi)\<rceil>"
      by (simp only: f)
    from less [OF this] obtain y' where
      "wrap_up exact (y + 2 * pi) = Some y'" "0 \<le> y'" "y + 2 * pi < 2 * pi \<longrightarrow> y' < 2 * pi"
      by blast
    with True show ?thesis
      by (subst wrap_up.simps) (simp add: exact_simps)
  qed
qed

lemma player_rotate_exact:
  "\<exists>p'. player_rotate exact p dp dy = Some p' \<and> rotation_in_range p' \<and>
        v2_x (rotation p') = max (- 1.5) (min 1.5 (v2_x (rotation p) + dp))"
proof -
  obtain y1 where y1: "wrap_down exact (v2_y (rotation p) + dy) = Some y1" "y1 < 2 * pi"
    using wrap_down_exact by blast
  obtain y2 where y2: "wrap_up exact y1 = Some y2" "0 \<le> y2" "y1 < 2 * pi \<longrightarrow> y2 < 2 * pi"
    using wrap_up_exact by blast
  show ?thesis
    using y1 y2
    by (auto simp: player_rotate_def exact_simps Let_def rotation_in_range_def)
qed

text \<open>
  In exact arithmetic every call returns, the pitch is the sum cut off at
  \<open>\<plusminus>1.5\<close>, and after each call of a sequence the pitch is in
  \<open>[-1.5, 1.5]\<close> and the yaw in \<open>[0, 2\<pi>)\<close>.
\<close>

lemma exact_rotation_stays_in_range:
  "rotation_in_range p \<Longrightarrow>
   \<forall>n \<le> length ds. \<exists>p'. rotate_all exact p (take n ds) = Some p' \<and> rotation_in_range p'"
proof (induction ds arbitrary: p)
  case Nil
  then show ?case by simp
next
  case (Cons d ds)
  obtain dp dy where d: "d = (dp, dy)"
    by (cases d)
  from player_rotate_exact [of p dp dy] obtain p1 where
    p1: "player_rotate exact p dp dy = Some p1" "rotation_in_range p1"
    by blast
  show ?case
  proof (intro allI impI)
    fix n
    assume n: "n \<le> length (d # ds)"
    show "\<exists>p'. rotate_all exact p (take n (d # ds)) = Some p' \<and> rotation_in_range p'"
    proof (cases n)
      case 0
      with Cons.prems show ?thesis by simp
    next
      case (Suc m)
      with n have "m \<le> length ds" by simp
      with Cons.IH [OF p1(2)] obtain p' where
        "rotate_all exact p1 (take m ds) = Some p'" "rotation_in_range p'"
        by blast
      with Suc d p1 show ?thesis by simp
    qed
  qed
qed

lemma ieee_simps:
  "to_float ieee = round_to 24" "to_double ieee = round_to 53"
  "M_PI ieee = 884279719003555 / 281474976710656"
  by (simp_all add: ieee_def)

lemma round_to_eval:
  assumes "x \<noteq> 0" and "2 powr of_int k \<le> \<bar>x\<bar>" and "\<bar>x\<bar> < 2 powr of_int (k + 1)"
    and "u = 2 powr of_int (k - int p + 1)"
  shows "round_to p x = of_int (round_half_even (x / u)) * u"
proof -
  have "\<lfloor>log 2 \<bar>x\<bar>\<rfloor> = k"
    using assms(1-3) by (subst floor_log_eq_powr_iff) simp_all
  with assms(1,4) show ?thesis
    by (simp add: round_to_def)
qed

lemma round_float_big: "round_to 24 (2 ^ 100) = 2 ^ 100"
  by (subst round_to_eval [where k = 100 and u = "2 ^ 77"])
     (simp_all add: round_half_even_def)

lemma two_pi_double: "round_to 53 (2 * (884279719003555 / 281474976710656))
    = 884279719003555 / 140737488355328"
  by (subst round_to_eval [where k = 2 and u = "1 / 2 ^ 50"])
     (simp_all add: round_half_even_def powr_minus_divide)

lemma round_double_big:
  "round_to 53 (2 ^ 100 - 884279719003555 / 140737488355328) = 2 ^ 100"
  by (subst round_to_eval [where k = 99 and u = "2 ^ 47"])
     (simp_all add: round_half_even_def)

lemma round_float_small: "round_to 24 (- 1 / 2 ^ 34) = - 1 / 2 ^ 34"
  by (subst round_to_eval [where k = "- 34" and u = "1 / 2 ^ 57"])
     (simp_all add: round_half_even_def powr_minus_divide)

lemma round_double_sum:
  "round_to 53 (- 1 / 2 ^ 34 + 884279719003555 / 140737488355328)
     = 884279718995363 / 140737488355328"
  by (subst round_to_eval [where k = 2 and u = "1 / 2 ^ 50"])
     (simp_all add: round_half_even_def powr_minus_divide)

lemma round_float_sum:
  "round_to 24 (884279718995363 / 140737488355328) = 13176795 / 2097152"
  by (subst round_to_eval [where k = 2 and u = "1 / 2 ^ 21"])
     (simp_all add: round_half_even_def powr_minus_divide)

lemma arctan_terms_decrease:
  fixes x :: real
  assumes "0 \<le> x" and "x \<le> 1"
  shows "1 / real (Suc n * 2 + 1) * x ^ (Suc n * 2 + 1) \<le> 1 / real (n * 2 + 1) * x ^ (n * 2 + 1)"
proof -
  have p: "x ^ (Suc n * 2 + 1) \<le> x ^ (n * 2 + 1)"
    using assms by (intro power_decreasing) simp_all
  have q: "1 / real (Suc n * 2 + 1) \<le> 1 / real (n * 2 + 1)"
    by (simp add: field_simps)
  show ?thesis
    using p q assms by (intro mult_mono) simp_all
qed

lemma arctan_between:
  fixes x :: real
  assumes "0 \<le> x" and "x \<le> 1"
  shows "(\<Sum>i<2 * n. (- 1) ^ i * (1 / real (i * 2 + 1) * x ^ (i * 2 + 1))) \<le> arctan x"
    and "arctan x \<le> (\<Sum>i<2 * n + 1. (- 1) ^ i * (1 / real (i * 2 + 1) * x ^ (i * 2 + 1)))"
proof -
  let ?a = "\<lambda>n. 1 / real (n * 2 + 1) * x ^ (n * 2 + 1)"
  have z: "?a \<longlonglongrightarrow> 0"
    using assms by (intro zeroseq_arctan_series) simp
  have p: "\<And>n. 0 \<le> ?a n"
    using assms by simp
  have m: "\<And>n. ?a (Suc n) \<le> ?a n"
    using assms by (rule arctan_terms_decrease)
  have s: "arctan x = (\<Sum>k. (- 1) ^ k * ?a k)"
    using assms by (intro arctan_series) simp
  show "(\<Sum>i<2 * n. (- 1) ^ i * ?a i) \<le> arctan x"
    unfolding s by (rule summable_Leibniz'(2) [OF z p m])
  show "arctan x \<le> (\<Sum>i<2 * n + 1. (- 1) ^ i * ?a i)"
    unfolding s by (rule summable_Leibniz'(4) [OF z p m])
qed

lemma pi_upper: "pi < 13176795 / 4194304"
proof -
  have u: "arctan (1 / 5) \<le> (\<Sum>i<2 * 2 + 1. (- 1) ^ i * (1 / real (i * 2 + 1) * (1 / 5) ^ (i * 2 + 1)))"
    by (rule arctan_between(2)) simp_all
  have l: "(\<Sum>i<2 * 1. (- 1) ^ i * (1 / real (i * 2 + 1) * (1 / 239) ^ (i * 2 + 1))) \<le> arctan (1 / 239)"
    by (rule arctan_between(1)) simp_all
  have "pi = 16 * arctan (1 / 5) - 4 * arctan (1 / 239)"
    using machin by simp
  also have "\<dots> \<le> 16 * (\<Sum>i<2 * 2 + 1. (- 1) ^ i * (1 / real (i * 2 + 1) * (1 / 5) ^ (i * 2 + 1)))
      - 4 * (\<Sum>i<2 * 1. (- 1) ^ i * (1 / real (i * 2 + 1) * (1 / 239) ^ (i * 2 + 1)))"
    using u l by simp
  also have "\<dots> < 13176795 / 4194304"
    by (simp add: lessThan_Suc eval_nat_numeral)
  finally show ?thesis .
qed


lemma two_pi_ieee: "to_double ieee (2 * M_PI ieee) = 884279719003555 / 140737488355328"
  by (simp only: ieee_simps two_pi_double)

lemma round_float_diff: "round_to 24 (- 5 / 2 ^ 27) = - 5 / 2 ^ 27"
  by (subst round_to_eval [where k = "- 25" and u = "1 / 2 ^ 48"])
     (simp_all add: round_half_even_def powr_minus_divide)

lemma round_double_wrapped:
  "round_to 53 (- 5 / 2 ^ 27 + 884279719003555 / 140737488355328)
     = 884279713760675 / 140737488355328"
  by (subst round_to_eval [where k = 2 and u = "1 / 2 ^ 50"])
     (simp_all add: round_half_even_def powr_minus_divide)

lemma round_float_wrapped:
  "round_to 24 (884279713760675 / 140737488355328) = 13176795 / 2097152"
  by (subst round_to_eval [where k = 2 and u = "1 / 2 ^ 21"])
     (simp_all add: round_half_even_def powr_minus_divide)

lemma round_zero: "round_to p 0 = 0"
  by (simp add: round_to_def)

lemma turned_sum:
  "to_float ieee (v2_y (rotation turned_player) + - PLAYER_TURN_SPEED) = below_zero"
proof -
  have "v2_y (rotation turned_player) + - PLAYER_TURN_SPEED = - 5 / 2 ^ 27"
    by (simp add: turned_player_def PLAYER_TURN_SPEED_def)
  then show ?thesis
    by (simp only: ieee_simps round_float_diff below_zero_def)
qed

lemma turned_pitch: "to_float ieee (v2_x (rotation turned_player) + 0) = 0"
  by (simp add: turned_player_def ieee_simps round_zero)

lemma wrap_down_below: "wrap_down ieee below_zero = Some below_zero"
proof -
  have "\<not> to_double ieee (2 * M_PI ieee) \<le> below_zero"
    by (simp add: two_pi_ieee below_zero_def)
  then show ?thesis
    by (subst wrap_down.simps) (simp only: if_False)
qed

lemma wrap_up_rounds_up: "wrap_up ieee below_zero = Some float_two_pi"
proof -
  have n: "to_float ieee (to_double ieee (below_zero + to_double ieee (2 * M_PI ieee)))
      = float_two_pi"
    unfolding float_two_pi_def below_zero_def
    by (simp only: two_pi_ieee) (simp only: ieee_simps round_double_wrapped round_float_wrapped)
  have neg: "below_zero < 0" and pos: "\<not> float_two_pi < 0"
    by (simp_all add: float_two_pi_def below_zero_def)
  have "wrap_up ieee below_zero = wrap_up ieee float_two_pi"
    by (subst wrap_up.simps) (simp only: neg if_True n)
  also have "\<dots> = Some float_two_pi"
    by (subst wrap_up.simps) (simp only: pos if_False)
  finally show ?thesis .
qed

text \<open>
  The numbers of the scene are floats: the turn speed is the float nearest to
  0.05, the yaw of \<open>turned_player\<close> is not changed by rounding, and
  \<open>float_two_pi\<close> is what a float holds after \<open>2.0f * M_PI\<close> is stored in it.
\<close>

lemma turn_speed_is_float: "round_to 24 (5 / 100) = PLAYER_TURN_SPEED"
  unfolding PLAYER_TURN_SPEED_def
  by (subst round_to_eval [where k = "- 5" and u = "1 / 2 ^ 28"])
     (simp_all add: round_half_even_def powr_minus_divide)

lemma turned_yaw_is_float:
  "round_to 24 (v2_y (rotation turned_player)) = v2_y (rotation turned_player)"
  unfolding turned_player_def
  by (simp, subst round_to_eval [where k = "- 5" and u = "1 / 2 ^ 28"])
     (simp_all add: round_half_even_def powr_minus_divide)

lemma float_two_pi_is_float: "to_float ieee (to_double ieee (2 * M_PI ieee)) = float_two_pi"
  unfolding float_two_pi_def
  by (simp only: two_pi_ieee, simp only: ieee_simps,
      subst round_to_eval [where k = 2 and u = "1 / 2 ^ 21"])
     (simp_all add: round_half_even_def powr_minus_divide)

lemma two_pi_below_float: "2 * pi < float_two_pi"
  using pi_upper by (simp add: float_two_pi_def)

text \<open>
  Claim C8. The claim keeps the yaw in \<open>[0, 2\<pi>)\<close> after every call. With
  the rounding of binary32 the code does not: from a pitch of 0 and a yaw of
  \<open>13421763 / 2\<^sup>2\<^sup>8\<close> (about 0.04999996, inside the range), the call
  with a pitch delta of 0 and the yaw delta \<open>-0.05f\<close> returns with the yaw
  \<open>13176795 / 2\<^sup>2\<^sup>1\<close> (about 6.2831855), which is above \<open>2\<pi>\<close> and not
  below the bound \<open>2.0f * M_PI\<close> that the first loop tests. The sum of yaw
  and delta is a small negative number; the second loop adds \<open>2\<pi>\<close> to it in
  double, and the store into the float rounds the result up.
\<close>

theorem yaw_rounds_up_to_two_pi:
  "v2_x (rotation turned_player) = 0 \<and>
   0 \<le> v2_y (rotation turned_player) \<and> v2_y (rotation turned_player) < 2 * pi \<and>
   player_rotate ieee turned_player 0 (- PLAYER_TURN_SPEED) =
     Some (turned_player\<lparr>rotation := \<lparr>v2_x = 0, v2_y = float_two_pi\<rparr>\<rparr>) \<and>
   2 * pi < float_two_pi \<and>
   to_double ieee (2 * M_PI ieee) \<le> float_two_pi"
proof -
  have r: "v2_x (rotation turned_player) = 0" "0 \<le> v2_y (rotation turned_player)"
    by (simp_all add: turned_player_def)
  have "v2_y (rotation turned_player) < 4"
    by (simp add: turned_player_def)
  also have "4 \<le> 2 * pi"
    using pi_ge_two by simp
  finally have u: "v2_y (rotation turned_player) < 2 * pi" .
  have c: "player_rotate ieee turned_player 0 (- PLAYER_TURN_SPEED) =
     Some (turned_player\<lparr>rotation := \<lparr>v2_x = 0, v2_y = float_two_pi\<rparr>\<rparr>)"
    unfolding player_rotate_def turned_sum turned_pitch
    by (simp add: wrap_down_below wrap_up_rounds_up Let_def)
  have d: "to_double ieee (2 * M_PI ieee) \<le> float_two_pi"
    by (simp add: two_pi_ieee float_two_pi_def)
  from r u c two_pi_below_float d show ?thesis
    by (intro conjI)
qed

text \<open>
  A yaw of \<open>2\<^sup>1\<^sup>0\<^sup>0\<close> is not changed by the subtraction of \<open>2\<pi>\<close>, so
  the first loop never exits.
\<close>

lemma absorbed:
  "to_float ieee (to_double ieee (huge_delta - to_double ieee (2 * M_PI ieee))) = huge_delta"
  unfolding huge_delta_def
  by (simp only: two_pi_ieee) (simp only: ieee_simps round_double_big round_float_big)

lemma huge_above: "to_double ieee (2 * M_PI ieee) \<le> huge_delta"
  by (simp add: two_pi_ieee huge_delta_def)

lemma wrap_down_returns_not_huge:
  assumes "wrap_down a y = Some r"
  shows "a = ieee \<longrightarrow> y \<noteq> huge_delta"
proof (rule wrap_down.raw_induct [where P = "\<lambda>a y r. a = ieee \<longrightarrow> y \<noteq> huge_delta", OF _ assms])
  fix f :: "arith \<Rightarrow> real \<Rightarrow> real option" and a y r
  assume IH: "\<And>a y r. f a y = Some r \<Longrightarrow> a = ieee \<longrightarrow> y \<noteq> huge_delta"
    and step: "(if to_double a (2 * M_PI a) \<le> y
      then f a (to_float a (to_double a (y - to_double a (2 * M_PI a))))
      else Some y) = Some r"
  show "a = ieee \<longrightarrow> y \<noteq> huge_delta"
  proof (intro impI notI)
    assume a: "a = ieee" and y: "y = huge_delta"
    from step have "f ieee (to_float ieee (to_double ieee
        (huge_delta - to_double ieee (2 * M_PI ieee)))) = Some r"
      unfolding a y using huge_above by simp
    then have "f ieee huge_delta = Some r"
      by (simp only: absorbed)
    from IH [OF this] show False
      by simp
  qed
qed

lemma wrap_down_never_returns: "wrap_down ieee huge_delta = None"
proof (cases "wrap_down ieee huge_delta")
  case None
  then show ?thesis .
next
  case (Some r)
  from wrap_down_returns_not_huge [OF this] show ?thesis
    by simp
qed

lemma huge_turn_never_returns: "player_rotate ieee turned_player 0 (huge_delta - 13421763 / 268435456) = None"
proof -
  have "to_float ieee (v2_y (rotation turned_player) + (huge_delta - 13421763 / 268435456))
      = huge_delta"
    by (simp add: turned_player_def ieee_simps huge_delta_def round_float_big [simplified])
  then show ?thesis
    unfolding player_rotate_def by (simp add: wrap_down_never_returns Let_def)
qed

end
